theory Spec2Isabelle
  imports Complex_Main "HOL-Library.Word"
begin

section \<open>JavaScript strings and values\<close>

text \<open>
  A JavaScript string is a sequence of UTF-16 code units; a code unit is modelled as a
  natural number. The response body is decoded with \<^verbatim>\<open>toString('latin1')\<close> and Node
  decodes header bytes the same way, so their code units are below 256; hexadecimal
  digests and timestamps are ASCII. \<open>str\<close> embeds an ASCII literal of the source.
\<close>

type_synonym jsstring = "nat list"

definition str :: "string \<Rightarrow> jsstring" where
  "str s = map of_char s"

text \<open>
  The values \<^verbatim>\<open>JSON.parse\<close> produces, and \<^verbatim>\<open>undefined\<close> for an absent property.
  A finite Number is the rational it denotes (\<open>JNumber\<close>), with \<^verbatim>\<open>-0\<close> identified with
  \<open>0\<close> (both are falsy and print as 0); a literal beyond the range of Numbers parses to
  an infinity. An object is the list of its own properties, each key once.
\<close>

datatype jsval =
    JUndefined
  | JNull
  | JBool bool
  | JNumber rat
  | JInfinity
  | JMinusInfinity
  | JString jsstring
  | JArray "jsval list"
  | JObject "(jsstring \<times> jsval) list"

text \<open>Truthiness, as \<^verbatim>\<open>if (x)\<close>, \<^verbatim>\<open>!x\<close> and \<^verbatim>\<open>&&\<close> test it.\<close>

fun truthy :: "jsval \<Rightarrow> bool" where
  "truthy JUndefined = False"
| "truthy JNull = False"
| "truthy (JBool b) = b"
| "truthy (JNumber x) = (x \<noteq> 0)"
| "truthy JInfinity = True"
| "truthy JMinusInfinity = True"
| "truthy (JString s) = (s \<noteq> [])"
| "truthy (JArray xs) = True"
| "truthy (JObject fs) = True"

section \<open>Requests and the platform\<close>

record outbound =
  url :: jsstring
  request_headers :: "(jsstring \<times> jsstring) list"

record axios_response =
  status :: int
  headers :: "(jsstring \<times> jsstring) list"
  data :: "8 word list"

datatype axios_result =
    Resolved axios_response
  | Rejected jsstring "axios_response option"

text \<open>
  The library functions and the tables of the language that the server uses and does
  not define:
  \<^item> \<open>hmac_sha256 key msg\<close>: the bytes of
    \<^verbatim>\<open>crypto.createHmac('sha256', key).update(msg).digest()\<close>;
  \<^item> \<open>JSON_parse s\<close>: \<^verbatim>\<open>JSON.parse(s)\<close>, \<open>Inl m\<close> a SyntaxError with message \<open>m\<close>;
  \<^item> \<open>URL_href base params\<close>: \<^verbatim>\<open>new URL(base)\<close> with the query parameters appended
    in order, as \<^verbatim>\<open>toString()\<close> prints it; \<open>None\<close> when \<^verbatim>\<open>new URL\<close> throws;
  \<^item> \<open>axios_get req\<close>: the outcome of the GET request;
  \<^item> \<open>Number_text x\<close>: the text JavaScript prints for a Number \<open>x\<close> that is not a safe
    integer (a fraction, or a magnitude from \<open>2^53\<close> on, where the digits are those of the
    nearest double and exponent notation starts at \<open>1e21\<close>);
  \<^item> \<open>Uppercase_Mapping p\<close>: the upper-case mapping of Unicode for a code point \<open>p\<close> from
    256 on, as UTF-16 code units.
\<close>

record platform =
  hmac_sha256 :: "jsstring \<Rightarrow> jsstring \<Rightarrow> 8 word list"
  JSON_parse :: "jsstring \<Rightarrow> jsstring + jsval"
  URL_href :: "jsstring \<Rightarrow> (jsstring \<times> jsstring) list \<Rightarrow> jsstring option"
  axios_get :: "outbound \<Rightarrow> axios_result"
  Number_text :: "rat \<Rightarrow> jsstring"
  Uppercase_Mapping :: "nat \<Rightarrow> jsstring"

record config =
  SECRET_KEY :: jsstring
  SITE_ID :: jsstring
  TOKEN_SERVICE_URL :: jsstring
  API_VERSION :: jsstring
  TIMESTAMP_TOLERANCE :: int

section \<open>Built-in conversions\<close>

text \<open>
  \<^verbatim>\<open>String(x)\<close> and \<^verbatim>\<open>`${x}`\<close> on a Number. A safe integer (an integer of magnitude at
  most \<open>2^53 - 1\<close>) prints as its decimal digits, with a minus sign when negative; the
  text of every other Number is the platform's.
\<close>

fun digits :: "nat \<Rightarrow> jsstring" where
  "digits n = (if n < 10 then [48 + n] else digits (n div 10) @ [48 + n mod 10])"

declare digits.simps [simp del]

definition is_safe_integer :: "rat \<Rightarrow> bool" where
  "is_safe_integer x =
     (x = of_int \<lfloor>x\<rfloor> \<and> - 9007199254740991 \<le> x \<and> x \<le> 9007199254740991)"

definition Number_toString :: "platform \<Rightarrow> rat \<Rightarrow> jsstring" where
  "Number_toString P x =
     (if is_safe_integer x
      then (if x < 0 then 45 # digits (nat (- \<lfloor>x\<rfloor>)) else digits (nat \<lfloor>x\<rfloor>))
      else Number_text P x)"

text \<open>
  \<^verbatim>\<open>s.padStart(n, c)\<close> with a one-character pad string and \<^verbatim>\<open>c.repeat(n)\<close>.
  \<^verbatim>\<open>s.substring(a, b)\<close> and \<^verbatim>\<open>s.substring(a)\<close> are written with \<open>take\<close> and \<open>drop\<close>
  where they occur; JavaScript clamps a negative index to 0, as \<open>nat\<close> subtraction does.
\<close>

definition padStart :: "nat \<Rightarrow> nat \<Rightarrow> jsstring \<Rightarrow> jsstring" where
  "padStart n c s = replicate (n - length s) c @ s"

definition repeat :: "nat \<Rightarrow> nat \<Rightarrow> jsstring" where
  "repeat c n = replicate n c"

text \<open>
  \<^verbatim>\<open>toUpperCase\<close> reads the string as code points (a high surrogate followed by a low
  surrogate is one code point, any other code unit is one by itself), maps each code
  point to its upper case and concatenates. Below 256 the mapping is written out: \<open>a-z\<close>
  and the Latin-1 letters move down by 32, the micro sign goes to U+039C, sharp s to
  \<open>SS\<close>, y-diaeresis to U+0178, every other code point stays. From 256 on the mapping
  is the platform's table.
\<close>

definition surrogate_pair :: "nat \<Rightarrow> nat \<Rightarrow> bool" where
  "surrogate_pair c d = (55296 \<le> c \<and> c \<le> 56319 \<and> 56320 \<le> d \<and> d \<le> 57343)"

fun code_points :: "jsstring \<Rightarrow> nat list" where
  "code_points [] = []"
| "code_points [c] = [c]"
| "code_points (c # d # s) =
     (if surrogate_pair c d
      then (65536 + (c - 55296) * 1024 + (d - 56320)) # code_points s
      else c # code_points (d # s))"

definition upper_point :: "platform \<Rightarrow> nat \<Rightarrow> jsstring" where
  "upper_point P c =
     (if 97 \<le> c \<and> c \<le> 122 then [c - 32]
      else if c = 181 then [924]
      else if c = 223 then [83, 83]
      else if 224 \<le> c \<and> c \<le> 254 \<and> c \<noteq> 247 then [c - 32]
      else if c = 255 then [376]
      else if c < 256 then [c]
      else Uppercase_Mapping P c)"

definition toUpperCase :: "platform \<Rightarrow> jsstring \<Rightarrow> jsstring" where
  "toUpperCase P s = concat (map (upper_point P) (code_points s))"

text \<open>
  \<^verbatim>\<open>trim\<close> removes the white space and line terminators of ECMAScript from BOTH ends of
  the string.
\<close>

definition is_white_space :: "nat \<Rightarrow> bool" where
  "is_white_space c =
     (c \<in> set [9, 10, 11, 12, 13, 32, 160, 5760, 8232, 8233, 8239, 8287, 12288, 65279]
      \<or> (8192 \<le> c \<and> c \<le> 8202))"

definition trim :: "jsstring \<Rightarrow> jsstring" where
  "trim s = rev (dropWhile is_white_space (rev (dropWhile is_white_space s)))"

text \<open>
  \<^verbatim>\<open>Buffer.toString('hex')\<close> and \<^verbatim>\<open>digest('hex')\<close>: two lower-case hexadecimal digits
  for each byte. \<^verbatim>\<open>Buffer.toString('latin1')\<close>: one code unit for each byte.
\<close>

definition hex_digit :: "nat \<Rightarrow> nat" where
  "hex_digit d = (if d < 10 then 48 + d else 87 + d)"

definition hex_byte :: "8 word \<Rightarrow> jsstring" where
  "hex_byte b = [hex_digit (unat b div 16), hex_digit (unat b mod 16)]"

definition hex :: "8 word list \<Rightarrow> jsstring" where
  "hex bs = concat (map hex_byte bs)"

definition latin1 :: "8 word list \<Rightarrow> jsstring" where
  "latin1 bs = map unat bs"

section \<open>Exceptions\<close>

text \<open>What the handler's \<^verbatim>\<open>try\<close> block can throw, each with its \<^verbatim>\<open>message\<close>.\<close>

datatype thrown =
    TypeError jsstring
  | SyntaxError jsstring
  | AxiosError jsstring outbound "axios_response option"

fun message :: "thrown \<Rightarrow> jsstring" where
  "message (TypeError m) = m"
| "message (SyntaxError m) = m"
| "message (AxiosError m req r) = m"

fun response :: "thrown \<Rightarrow> axios_response option" where
  "response (TypeError m) = None"
| "response (SyntaxError m) = None"
| "response (AxiosError m req r) = r"

text \<open>
  \<^verbatim>\<open>`${v}`\<close> on a value: ToString. An array prints its elements joined by commas, with
  \<^verbatim>\<open>null\<close> and \<^verbatim>\<open>undefined\<close> elements empty. A parsed object prints
  \<^verbatim>\<open>[object Object]\<close>, unless it has an own property \<^verbatim>\<open>toString\<close>, which hides the
  inherited method and is not callable: then the conversion throws.
\<close>

fun ToString :: "platform \<Rightarrow> jsval \<Rightarrow> thrown + jsstring"
  and join :: "platform \<Rightarrow> jsval list \<Rightarrow> thrown + jsstring" where
  "ToString P JUndefined = Inr (str ''undefined'')"
| "ToString P JNull = Inr (str ''null'')"
| "ToString P (JBool b) = Inr (if b then str ''true'' else str ''false'')"
| "ToString P (JNumber x) = Inr (Number_toString P x)"
| "ToString P JInfinity = Inr (str ''Infinity'')"
| "ToString P JMinusInfinity = Inr (str ''-Infinity'')"
| "ToString P (JString s) = Inr s"
| "ToString P (JArray xs) = join P xs"
| "ToString P (JObject fs) =
     (if str ''toString'' \<in> set (map fst fs)
      then Inl (TypeError (str ''Cannot convert object to primitive value''))
      else Inr (str ''[object Object]''))"
| "join P [] = Inr []"
| "join P (x # xs) =
     (case (if x = JUndefined \<or> x = JNull then Inr [] else ToString P x) of
        Inl e \<Rightarrow> Inl e
      | Inr s \<Rightarrow>
          (if xs = [] then Inr s
           else (case join P xs of Inl e \<Rightarrow> Inl e | Inr t \<Rightarrow> Inr (s @ 44 # t))))"

section \<open>Console output\<close>

text \<open>
  Each call of \<^verbatim>\<open>console.log\<close>, \<^verbatim>\<open>console.warn\<close> or \<^verbatim>\<open>console.error\<close> is one entry,
  holding the arguments of the call in order: a value, a Buffer or a caught exception.
\<close>

datatype log_arg = Val jsval | Buf "8 word list" | Exn thrown

datatype log_entry =
    ConsoleLog "log_arg list"
  | ConsoleWarn "log_arg list"
  | ConsoleError "log_arg list"

definition lit :: "string \<Rightarrow> log_arg" where
  "lit s = Val (JString (str s))"

definition sv :: "jsstring \<Rightarrow> log_arg" where
  "sv s = Val (JString s)"

section \<open>Utility functions of server.js\<close>

text \<open>
  \<^verbatim>\<open>new Date()\<close>: the instant the clock gives, seen through the getters of \<^verbatim>\<open>Date\<close>.
  The UTC getters and the local-time getters are separate fields, as they are separate
  methods; \<open>getUTCMonth\<close> and \<open>getMonth\<close> count from 0.
\<close>

record js_date =
  getUTCFullYear :: int
  getUTCMonth :: int
  getUTCDate :: int
  getUTCHours :: int
  getUTCMinutes :: int
  getUTCSeconds :: int
  getFullYear :: int
  getMonth :: int
  getDate :: int
  getHours :: int
  getMinutes :: int
  getSeconds :: int
  toISOString :: jsstring

definition generateTimestamp :: "platform \<Rightarrow> js_date \<Rightarrow> jsstring" where
  "generateTimestamp P now =
     (let year = getUTCFullYear now;
          month = padStart 2 48 (Number_toString P (of_int (getUTCMonth now + 1)));
          day = padStart 2 48 (Number_toString P (of_int (getUTCDate now)));
          hours = padStart 2 48 (Number_toString P (of_int (getUTCHours now)));
          minutes = padStart 2 48 (Number_toString P (of_int (getUTCMinutes now)));
          seconds = padStart 2 48 (Number_toString P (of_int (getUTCSeconds now)))
      in Number_toString P (of_int year) @ month @ day @ hours @ minutes @ seconds)"

definition generateSignature :: "platform \<Rightarrow> jsstring \<Rightarrow> jsstring \<Rightarrow> jsstring" where
  "generateSignature P secretKey msg = hex (hmac_sha256 P secretKey msg)"

text \<open>\<open>randomBytes n\<close> is what \<^verbatim>\<open>crypto.randomBytes(n)\<close> returns for this request.\<close>

definition generateUniqueId :: "(nat \<Rightarrow> 8 word list) \<Rightarrow> jsstring" where
  "generateUniqueId randomBytes = hex (randomBytes 16)"

text \<open>
  \<open>verifyResponseSignature\<close> returns what it logs and what it returns; building the
  message converts \<open>tokenRequestId\<close> to a string first, which can throw before any output.
\<close>

definition verifyResponseSignature ::
  "platform \<Rightarrow> jsstring \<Rightarrow> jsstring \<Rightarrow> jsstring \<Rightarrow> jsval \<Rightarrow> jsstring
     \<Rightarrow> log_entry list \<times> (thrown + bool)" where
  "verifyResponseSignature P secretKey receivedSignature serverTimestamp tokenRequestId
       rawResponseBody =
     (case ToString P tokenRequestId of
        Inl e \<Rightarrow> ([], Inl e)
      | Inr reqid \<Rightarrow>
          (let msg = serverTimestamp @ reqid @ rawResponseBody;
               expectedSignature = toUpperCase P (generateSignature P secretKey msg);
               isValid = (expectedSignature = toUpperCase P receivedSignature)
           in ([ConsoleLog [sv (10 # str ''--- Response Signature Verification ---'')],
                ConsoleLog [lit ''Server Timestamp:'', sv serverTimestamp],
                ConsoleLog [lit ''Token Request ID:'', Val tokenRequestId],
                ConsoleLog [lit ''Expected Signature:'', sv expectedSignature],
                ConsoleLog [lit ''Received Signature:'', sv (toUpperCase P receivedSignature)],
                ConsoleLog [lit ''Result:'',
                  sv (if isValid then 9989 # str '' VALID'' else 10060 # str '' INVALID'')]],
               Inr isValid)))"

section \<open>POST /api/generate-token\<close>

record http_reply =
  res_status :: int
  res_json :: jsval

text \<open>
  \<^verbatim>\<open>parsedData.TOKEN_REQID\<close>: reading a property of \<^verbatim>\<open>null\<close> throws; an object gives
  its own property or \<^verbatim>\<open>undefined\<close>; a number, string, boolean or array has no such
  property.
\<close>

fun get_TOKEN_REQID :: "jsval \<Rightarrow> thrown + jsval" where
  "get_TOKEN_REQID JNull =
     Inl (TypeError (str ''Cannot read properties of null (reading '' @ 39 #
            str ''TOKEN_REQID'' @ [39, 41]))"
| "get_TOKEN_REQID JUndefined =
     Inl (TypeError (str ''Cannot read properties of undefined (reading '' @ 39 #
            str ''TOKEN_REQID'' @ [39, 41]))"
| "get_TOKEN_REQID (JObject fs) =
     Inr (case map_of fs (str ''TOKEN_REQID'') of None \<Rightarrow> JUndefined | Some v \<Rightarrow> v)"
| "get_TOKEN_REQID v = Inr JUndefined"

text \<open>
  Lines 207 to 249: the verification of the response and the reply that follows it.
  A header that is absent reads as \<^verbatim>\<open>undefined\<close> (\<open>None\<close>).
\<close>

definition check_response ::
  "platform \<Rightarrow> config \<Rightarrow> axios_response \<Rightarrow> jsstring \<Rightarrow> jsval
     \<Rightarrow> log_entry list \<times> (thrown + http_reply)" where
  "check_response P cfg resp rawResponseBody parsedData =
     (let serverTimestamp = map_of (headers resp) (str ''x-timestamp'');
          serverSignature = map_of (headers resp) (str ''x-signature'');
          token_reply = \<lparr>res_status = 200, res_json = JObject
            [(str ''success'', JBool True),
             (str ''signatureVerified'', JBool True),
             (str ''token'', parsedData)]\<rparr>;
          skip = ([ConsoleWarn [sv ([9888, 65039] @
            str '' Response missing signature headers - skipping verification'')]],
            Inr token_reply)
      in case get_TOKEN_REQID parsedData of
           Inl e \<Rightarrow> ([], Inl e)
         | Inr tokenRequestId \<Rightarrow>
             (case (serverSignature, serverTimestamp) of
                (Some sig, Some ts) \<Rightarrow>
                  if sig \<noteq> [] \<and> ts \<noteq> [] \<and> truthy tokenRequestId then
                    (case verifyResponseSignature P (SECRET_KEY cfg) sig ts tokenRequestId
                            (trim rawResponseBody) of
                       (vlog, Inl e) \<Rightarrow> (vlog, Inl e)
                     | (vlog, Inr isValid) \<Rightarrow>
                         if \<not> isValid then
                           (case ToString P tokenRequestId of
                              Inl e \<Rightarrow>
                                (vlog @ [ConsoleError [sv (10060 #
                                   str '' Response signature verification FAILED!'')]], Inl e)
                            | Inr reqid \<Rightarrow>
                                (vlog @ [ConsoleError [sv (10060 #
                                   str '' Response signature verification FAILED!'')]],
                                 Inr \<lparr>res_status = 200, res_json = JObject
                                   [(str ''success'', JBool False),
                                    (str ''error'',
                                       JString (str ''Response signature verification failed'')),
                                    (str ''signatureVerified'', JBool False),
                                    (str ''receivedSignature'', JString sig),
                                    (str ''expectedSignature'', JString (toUpperCase P
                                       (generateSignature P (SECRET_KEY cfg)
                                          (ts @ reqid @ trim rawResponseBody)))),
                                    (str ''serverTimestamp'', JString ts),
                                    (str ''tokenRequestId'', tokenRequestId),
                                    (str ''responseData'', parsedData)]\<rparr>))
                         else
                           (vlog @ [ConsoleLog [sv (9989 #
                              str '' Response signature verified successfully!'')]],
                            Inr token_reply))
                  else skip
              | _ \<Rightarrow> skip))"

text \<open>
  The \<^verbatim>\<open>try\<close> block, lines 146 to 249: the console output so far, the request sent to
  the token service (if one was sent), and the reply or the exception thrown.
  \<^verbatim>\<open>cardPan.substring\<close> exists only when \<open>cardPan\<close> is a string.
\<close>

definition try_block ::
  "platform \<Rightarrow> config \<Rightarrow> jsval \<Rightarrow> js_date \<Rightarrow> (nat \<Rightarrow> 8 word list)
     \<Rightarrow> log_entry list \<times> outbound option \<times> (thrown + http_reply)" where
  "try_block P cfg cardPan now randomBytes =
     (if \<not> truthy cardPan then
        ([], None, Inr \<lparr>res_status = 400, res_json = JObject
           [(str ''error'', JString (str ''Missing required field: cardPan''))]\<rparr>)
      else
        (let timestamp = generateTimestamp P now;
             uniqueId = generateUniqueId randomBytes;
             siteId = SITE_ID cfg;
             messageToSign = timestamp @ uniqueId @ siteId;
             signature = generateSignature P (SECRET_KEY cfg) messageToSign;
             log1 = [ConsoleLog [sv (10 # str ''--- Token Request Generation ---'')]]
         in case cardPan of
              JString pan \<Rightarrow>
                (let log2 = log1 @
                       [ConsoleLog [lit ''Card PAN:'',
                          sv (take 6 pan @ str ''******'' @ drop (length pan - 4) pan)],
                        ConsoleLog [lit ''Timestamp:'', sv timestamp],
                        ConsoleLog [lit ''Unique ID:'', sv uniqueId],
                        ConsoleLog [lit ''Site ID:'', sv siteId],
                        ConsoleLog [lit ''Message to Sign:'', sv messageToSign],
                        ConsoleLog [lit ''Generated Signature:'', sv signature]]
                 in case URL_href P (TOKEN_SERVICE_URL cfg)
                           [(str ''CARD_PAN'', pan),
                            (str ''REQUEST_API_VERSION'', API_VERSION cfg),
                            (str ''UNIQUE_ID'', uniqueId),
                            (str ''SITE_ID'', siteId),
                            (str ''REQUEST_RESPONSE_FORMAT'', str ''JSON'')] of
                      None \<Rightarrow> (log2, None, Inl (TypeError (str ''Invalid URL'')))
                    | Some href \<Rightarrow>
                        (let req = \<lparr>url = href, request_headers =
                               [(str ''X-SIGNATURE'', signature),
                                (str ''X-TIMESTAMP'', timestamp)]\<rparr>;
                             log3 = log2 @
                               [ConsoleLog [lit ''Request URL:'', sv href],
                                ConsoleLog [lit ''Request Headers:'', Val (JObject
                                  [(str ''X-SIGNATURE'', JString signature),
                                   (str ''X-TIMESTAMP'', JString timestamp)])]]
                         in case axios_get P req of
                              Rejected m r \<Rightarrow> (log3, Some req, Inl (AxiosError m req r))
                            | Resolved resp \<Rightarrow>
                                (let rawResponseBody = latin1 (data resp)
                                 in case JSON_parse P rawResponseBody of
                                      Inl m \<Rightarrow> (log3, Some req, Inl (SyntaxError m))
                                    | Inr parsedData \<Rightarrow>
                                        (let log4 = log3 @
                                           [ConsoleLog [sv (10 #
                                              str ''--- Token Service Response ---'')],
                                            ConsoleLog [lit ''Status:'',
                                              Val (JNumber (of_int (status resp)))],
                                            ConsoleLog [lit ''Response Headers:'',
                                              Val (JObject (map (\<lambda>(k, v). (k, JString v))
                                                (headers resp)))],
                                            ConsoleLog [lit ''Raw Response Body:'',
                                              sv rawResponseBody],
                                            ConsoleLog [lit ''Parsed Response Data:'',
                                              Val parsedData]]
                                         in case check_response P cfg resp rawResponseBody
                                                   parsedData of
                                              (log5, r) \<Rightarrow> (log4 @ log5, Some req, r)))))
            | _ \<Rightarrow>
                (log1, None,
                 Inl (TypeError (str ''cardPan.substring is not a function'')))))"

text \<open>
  \<^verbatim>\<open>res.json\<close> serialises a Buffer through its \<^verbatim>\<open>toJSON\<close>.
\<close>

definition Buffer_toJSON :: "8 word list \<Rightarrow> jsval" where
  "Buffer_toJSON bs = JObject
     [(str ''type'', JString (str ''Buffer'')),
      (str ''data'', JArray (map (\<lambda>b. JNumber (of_int (uint b))) bs))]"

record outcome =
  console :: "log_entry list"
  sent :: "outbound option"
  reply :: http_reply

text \<open>The handler: the \<^verbatim>\<open>try\<close> block and the \<^verbatim>\<open>catch\<close> block, lines 251 to 270.\<close>

definition generate_token ::
  "platform \<Rightarrow> config \<Rightarrow> jsval \<Rightarrow> js_date \<Rightarrow> (nat \<Rightarrow> 8 word list) \<Rightarrow> outcome" where
  "generate_token P cfg cardPan now randomBytes =
     (case try_block P cfg cardPan now randomBytes of
        (out, req, Inr r) \<Rightarrow> \<lparr>console = out, sent = req, reply = r\<rparr>
      | (out, req, Inl err) \<Rightarrow>
          (let out1 = out @
                 [ConsoleError [sv (10 # str ''--- Error ---'')],
                  ConsoleError [lit ''Error Message:'', sv (message err)]]
           in case response err of
                Some r \<Rightarrow>
                  \<lparr>console = out1 @
                     [ConsoleError [lit ''Response Status:'', Val (JNumber (of_int (status r)))],
                      ConsoleError [lit ''Response Data:'', Buf (data r)]],
                   sent = req,
                   reply = \<lparr>res_status = status r, res_json = JObject
                     [(str ''error'', JString (str ''Token service error'')),
                      (str ''details'', Buffer_toJSON (data r))]\<rparr>\<rparr>
              | None \<Rightarrow>
                  \<lparr>console = out1 @ [ConsoleError [lit ''Error Details:'', Exn err]],
                   sent = req,
                   reply = \<lparr>res_status = 500, res_json = JObject
                     [(str ''error'', JString (str ''Internal server error'')),
                      (str ''message'', JString (message err))]\<rparr>\<rparr>))"

section \<open>GET /health and the start of the server\<close>

definition health :: "config \<Rightarrow> js_date \<Rightarrow> http_reply" where
  "health cfg now = \<lparr>res_status = 200, res_json = JObject
     [(str ''status'', JString (str ''healthy'')),
      (str ''timestamp'', JString (toISOString now)),
      (str ''config'', JObject
         [(str ''siteId'', JString (SITE_ID cfg)),
          (str ''apiVersion'', JString (API_VERSION cfg)),
          (str ''tokenServiceUrl'', JString (TOKEN_SERVICE_URL cfg))])]\<rparr>"

text \<open>The callback of \<^verbatim>\<open>app.listen\<close>, lines 310 to 323; \<open>port\<close> is the text of \<^verbatim>\<open>${PORT}\<close>.\<close>

definition listen_banner :: "jsstring \<Rightarrow> config \<Rightarrow> log_entry list" where
  "listen_banner port cfg =
     [ConsoleLog [sv (10 # repeat 61 50)],
      ConsoleLog [lit ''Inovio Tokenization API - Reference Server''],
      ConsoleLog [sv (repeat 61 50)],
      ConsoleLog [sv (10 # str ''Server running on port '' @ port)],
      ConsoleLog [sv (str ''Web interface: http://localhost:'' @ port)],
      ConsoleLog [sv (str ''Health check:  http://localhost:'' @ port @ str ''/health'')],
      ConsoleLog [sv (10 # str ''Configuration:'')],
      ConsoleLog [sv (str ''  Site ID:       '' @ SITE_ID cfg)],
      ConsoleLog [sv (str ''  API Version:   '' @ API_VERSION cfg)],
      ConsoleLog [sv (str ''  Service URL:   '' @ TOKEN_SERVICE_URL cfg)],
      ConsoleLog [sv (str ''  Secret Key:    '' @ take 3 (SECRET_KEY cfg) @
         repeat 42 (max 0 (length (SECRET_KEY cfg) - 3)))],
      ConsoleLog [sv (10 # repeat 61 50 @ [10])]]"

section \<open>Notions of the specification\<close>

text \<open>Decimal digits and hexadecimal digits of either case, as character classes.\<close>

definition is_digit :: "nat \<Rightarrow> bool" where
  "is_digit c = (48 \<le> c \<and> c \<le> 57)"

definition is_lower_hex :: "nat \<Rightarrow> bool" where
  "is_lower_hex c = ((48 \<le> c \<and> c \<le> 57) \<or> (97 \<le> c \<and> c \<le> 102))"

definition is_upper_hex :: "nat \<Rightarrow> bool" where
  "is_upper_hex c = ((48 \<le> c \<and> c \<le> 57) \<or> (65 \<le> c \<and> c \<le> 70))"

text \<open>Hexadecimal with the digits \<open>A\<close> to \<open>F\<close> in upper case, written directly from the bytes.\<close>

definition upper_hex_digit :: "nat \<Rightarrow> nat" where
  "upper_hex_digit d = (if d < 10 then 48 + d else 55 + d)"

definition upper_hex :: "8 word list \<Rightarrow> jsstring" where
  "upper_hex bs =
     concat (map (\<lambda>b. [upper_hex_digit (unat b div 16), upper_hex_digit (unat b mod 16)]) bs)"

text \<open>
  The expected response signature in the words of the specification: the keyed hash of
  \<open>serverTimestamp ++ requestIdAsString ++ trimmedRawBody\<close>, in upper-case hexadecimal.
\<close>

definition spec_expected_signature ::
  "platform \<Rightarrow> jsstring \<Rightarrow> jsstring \<Rightarrow> jsstring \<Rightarrow> jsstring \<Rightarrow> jsstring" where
  "spec_expected_signature P secretKey serverTimestamp requestIdAsString trimmedRawBody =
     upper_hex (hmac_sha256 P secretKey
       (serverTimestamp @ requestIdAsString @ trimmedRawBody))"

text \<open>A number in exactly \<open>w\<close> decimal digits, zero-padded on the left.\<close>

primrec fixed_width :: "nat \<Rightarrow> nat \<Rightarrow> jsstring" where
  "fixed_width 0 n = []"
| "fixed_width (Suc w) n = fixed_width w (n div 10) @ [48 + n mod 10]"

text \<open>
  The request id as a string, in the words of the specification: its canonical string
  representation, as it appears in the parsed payload. A string id is itself. A numeric
  id is the text of the number: for a safe integer its decimal numeral (a minus sign
  when it is negative, then as many digits as the number has, none of them a leading
  zero), for any other Number the text the platform prints. The data model has no
  other request id.
\<close>

fun digit_count :: "nat \<Rightarrow> nat" where
  "digit_count n = (if n < 10 then Suc 0 else Suc (digit_count (n div 10)))"

declare digit_count.simps [simp del]

definition decimal_numeral :: "int \<Rightarrow> jsstring" where
  "decimal_numeral n =
     (if n < 0 then 45 # fixed_width (digit_count (nat (- n))) (nat (- n))
      else fixed_width (digit_count (nat n)) (nat n))"

fun spec_request_id_text :: "platform \<Rightarrow> jsval \<Rightarrow> jsstring option" where
  "spec_request_id_text P (JString s) = Some s"
| "spec_request_id_text P (JNumber x) =
     Some (if x = of_int \<lfloor>x\<rfloor> \<and> \<bar>x\<bar> \<le> 9007199254740991
           then decimal_numeral \<lfloor>x\<rfloor> else Number_text P x)"
| "spec_request_id_text P JInfinity = Some (str ''Infinity'')"
| "spec_request_id_text P JMinusInfinity = Some (str ''-Infinity'')"
| "spec_request_id_text P v = None"

text \<open>
  The ranges of the UTC getters of a \<^verbatim>\<open>Date\<close>, the year apart: months 0 to 11, days 1
  to 31, hours 0 to 23, minutes and seconds 0 to 59.
\<close>

definition utc_fields_in_range :: "js_date \<Rightarrow> bool" where
  "utc_fields_in_range d =
     (0 \<le> getUTCMonth d \<and> getUTCMonth d \<le> 11 \<and> 1 \<le> getUTCDate d \<and> getUTCDate d \<le> 31
      \<and> 0 \<le> getUTCHours d \<and> getUTCHours d \<le> 23
      \<and> 0 \<le> getUTCMinutes d \<and> getUTCMinutes d \<le> 59
      \<and> 0 \<le> getUTCSeconds d \<and> getUTCSeconds d \<le> 59)"

text \<open>
  The preprocessing in the words of the specification: only trailing white space is
  removed, what comes first is kept.
\<close>

definition strip_trailing :: "jsstring \<Rightarrow> jsstring" where
  "strip_trailing s = rev (dropWhile is_white_space (rev s))"

text \<open>
  Two strings that differ only in the case of letters: the same length, and at each
  position the same code unit or the two cases of one ASCII or Latin-1 letter.
\<close>

definition is_lower_letter :: "nat \<Rightarrow> bool" where
  "is_lower_letter c = ((97 \<le> c \<and> c \<le> 122) \<or> (224 \<le> c \<and> c \<le> 246) \<or> (248 \<le> c \<and> c \<le> 254))"

definition same_letter :: "nat \<Rightarrow> nat \<Rightarrow> bool" where
  "same_letter c d =
     (c = d \<or> (is_lower_letter c \<and> c = d + 32) \<or> (is_lower_letter d \<and> d = c + 32))"

definition case_variant :: "jsstring \<Rightarrow> jsstring \<Rightarrow> bool" where
  "case_variant r r' = list_all2 same_letter r r'"

section \<open>A stub platform and sample data\<close>

text \<open>
  The configuration is the one the server falls back to (lines 32 to 38), the instant is
  the one of the documented example timestamp \<^verbatim>\<open>20251103170000\<close>, seen from a machine
  eight hours west of Greenwich. The stub platform stands for the libraries: a short
  keyed checksum in place of HMAC-SHA256, a parser that knows the sample bodies, a URL
  printer for parameters that need no escaping, and a token service that answers every
  request with one given response. The samples hold no Number but safe integers and no
  code point from 256 on in a signature; for them the stub prints no text and leaves the
  code point as it is.
\<close>

definition sample_config :: config where
  "sample_config =
     \<lparr>SECRET_KEY = str ''Password123'',
      SITE_ID = str ''9201'',
      TOKEN_SERVICE_URL = str ''https://t1api.inoviopay.com/payment/token_service.cfm'',
      API_VERSION = str ''2.22'',
      TIMESTAMP_TOLERANCE = 300\<rparr>"

definition sample_now :: js_date where
  "sample_now =
     \<lparr>getUTCFullYear = 2025, getUTCMonth = 10, getUTCDate = 3,
      getUTCHours = 17, getUTCMinutes = 0, getUTCSeconds = 0,
      getFullYear = 2025, getMonth = 10, getDate = 3,
      getHours = 9, getMinutes = 0, getSeconds = 0,
      toISOString = str ''2025-11-03T17:00:00.000Z''\<rparr>"

definition sample_random :: "nat \<Rightarrow> 8 word list" where
  "sample_random n =
     take n [1, 35, 69, 103, 137, 171, 205, 239, 254, 220, 186, 152, 118, 84, 50, 16]"

definition stub_hmac :: "jsstring \<Rightarrow> jsstring \<Rightarrow> 8 word list" where
  "stub_hmac k m = [of_nat (sum_list k + sum_list m), of_nat (length m)]"

definition sample_body :: jsstring where
  \<open>sample_body = str ''{"TOKEN_REQID":7}''\<close>

definition zero_body :: jsstring where
  \<open>zero_body = str ''{"TOKEN_REQID":0}''\<close>

definition stub_parse :: "jsstring \<Rightarrow> jsstring + jsval" where
  "stub_parse s =
     (if s = sample_body @ [10] \<or> s = 32 # sample_body @ [10]
      then Inr (JObject [(str ''TOKEN_REQID'', JNumber 7)])
      else if s = zero_body @ [10]
      then Inr (JObject [(str ''TOKEN_REQID'', JNumber 0)])
      else Inl (str ''Unexpected end of JSON input''))"

fun stub_query :: "nat \<Rightarrow> (jsstring \<times> jsstring) list \<Rightarrow> jsstring" where
  "stub_query sep [] = []"
| "stub_query sep ((k, v) # ps) = sep # k @ 61 # v @ stub_query 38 ps"

definition stub_href :: "jsstring \<Rightarrow> (jsstring \<times> jsstring) list \<Rightarrow> jsstring option" where
  "stub_href base ps = Some (base @ stub_query 63 ps)"

definition stub_platform :: "axios_response \<Rightarrow> platform" where
  "stub_platform r =
     \<lparr>hmac_sha256 = stub_hmac, JSON_parse = stub_parse, URL_href = stub_href,
      axios_get = (\<lambda>req. Resolved r),
      Number_text = (\<lambda>x. []),
      Uppercase_Mapping = (\<lambda>p. if p < 65536 then [p]
        else [55296 + (p - 65536) div 1024, 56320 + (p - 65536) mod 1024])\<rparr>"

definition stub_response :: "(jsstring \<times> jsstring) list \<Rightarrow> jsstring \<Rightarrow> axios_response" where
  "stub_response hs body = \<lparr>status = 200, headers = hs, data = map of_nat body\<rparr>"

definition sample_pan :: jsval where
  "sample_pan = JString (str ''409159111111111'')"

text \<open>
  Responses of the stub service, all with the timestamp header \<^verbatim>\<open>20251103170005\<close>:
  correctly signed (the checksum of the timestamp, \<^verbatim>\<open>7\<close> and the body is \<^verbatim>\<open>DD20\<close>), with
  another signature, without the signature header, with the request id 0, and with a
  space before the body, signed over the body with only the final newline removed.
\<close>

definition signed_response :: axios_response where
  "signed_response = stub_response
     [(str ''x-timestamp'', str ''20251103170005''), (str ''x-signature'', str ''DD20'')]
     (sample_body @ [10])"

definition forged_response :: axios_response where
  "forged_response = stub_response
     [(str ''x-timestamp'', str ''20251103170005''), (str ''x-signature'', str ''DD21'')]
     (sample_body @ [10])"

definition unsigned_response :: axios_response where
  "unsigned_response = stub_response
     [(str ''x-timestamp'', str ''20251103170005'')]
     (sample_body @ [10])"

definition zero_id_response :: axios_response where
  "zero_id_response = stub_response
     [(str ''x-timestamp'', str ''20251103170005''), (str ''x-signature'', str ''D620'')]
     (zero_body @ [10])"

definition indented_response :: axios_response where
  "indented_response = stub_response
     [(str ''x-timestamp'', str ''20251103170005''),
      (str ''x-signature'', upper_hex (stub_hmac (str ''Password123'')
         (str ''20251103170005'' @ str ''7'' @ strip_trailing (32 # sample_body @ [10]))))]
     (32 # sample_body @ [10])"

text \<open>
  The request the handler sends for the sample card number, instant and random bytes,
  and the payload the stub parser gives for the sample body.
\<close>

definition sample_request :: outbound where
  "sample_request =
     \<lparr>url = str ''https://t1api.inoviopay.com/payment/token_service.cfm'' @
        str ''?CARD_PAN=409159111111111&REQUEST_API_VERSION=2.22'' @
        str ''&UNIQUE_ID=0123456789abcdeffedcba9876543210'' @
        str ''&SITE_ID=9201&REQUEST_RESPONSE_FORMAT=JSON'',
      request_headers =
        [(str ''X-SIGNATURE'', str ''2f32''),
         (str ''X-TIMESTAMP'', str ''20251103170000'')]\<rparr>"

definition sample_payload :: jsval where
  "sample_payload = JObject [(str ''TOKEN_REQID'', JNumber 7)]"

section \<open>Hexadecimal text and letter case\<close>

lemma nibble_bounds: "unat (b :: 8 word) div 16 < 16" "unat b mod 16 < 16"
proof -
  have "unat b < 256"
    using unsigned_less [of b, where ?'a = nat] by simp
  then show "unat b div 16 < 16" by simp
  show "unat b mod 16 < 16" by simp
qed

lemma code_points_plain: "list_all (\<lambda>c. c < 55296) s \<Longrightarrow> code_points s = s"
  by (induction s rule: code_points.induct) (simp_all add: surrogate_pair_def)

lemma hex_digit_small: "d < 16 \<Longrightarrow> hex_digit d < 55296"
  by (simp add: hex_digit_def)

lemma hex_plain: "list_all (\<lambda>c. c < 55296) (hex bs)"
  by (induction bs) (simp_all add: hex_def hex_byte_def hex_digit_small nibble_bounds)

lemma upper_point_hex_digit: "d < 16 \<Longrightarrow> upper_point P (hex_digit d) = [upper_hex_digit d]"
  by (simp add: upper_point_def hex_digit_def upper_hex_digit_def)

lemma toUpperCase_hex: "toUpperCase P (hex bs) = upper_hex bs"
proof -
  have "concat (map (upper_point P) (hex bs)) = upper_hex bs"
    by (induction bs)
      (simp_all add: hex_def hex_byte_def upper_hex_def upper_point_hex_digit nibble_bounds)
  then show ?thesis
    by (simp add: toUpperCase_def code_points_plain [OF hex_plain])
qed

lemma is_lower_hex_digit: "d < 16 \<Longrightarrow> is_lower_hex (hex_digit d)"
  by (simp add: is_lower_hex_def hex_digit_def)

lemma is_upper_hex_digit: "d < 16 \<Longrightarrow> is_upper_hex (upper_hex_digit d)"
  by (simp add: is_upper_hex_def upper_hex_digit_def)

lemma hex_is_lower: "list_all is_lower_hex (hex bs)"
  by (induction bs) (simp_all add: hex_def hex_byte_def is_lower_hex_digit nibble_bounds)

lemma upper_hex_is_upper: "list_all is_upper_hex (upper_hex bs)"
  by (induction bs) (simp_all add: upper_hex_def is_upper_hex_digit nibble_bounds)

lemma upper_point_lower: "is_lower_letter c \<Longrightarrow> upper_point P c = [c - 32]"
  unfolding is_lower_letter_def upper_point_def by auto

lemma upper_point_capital: "is_lower_letter (d + 32) \<Longrightarrow> upper_point P d = [d]"
  unfolding is_lower_letter_def upper_point_def by auto

lemma same_letter_upper: "same_letter c d \<Longrightarrow> upper_point P c = upper_point P d"
  unfolding same_letter_def
proof (elim disjE conjE)
  assume "c = d"
  then show ?thesis by simp
next
  assume "is_lower_letter c" "c = d + 32"
  then show ?thesis
    using upper_point_lower [of c P] upper_point_capital [of d P] by simp
next
  assume "is_lower_letter d" "d = c + 32"
  then show ?thesis
    using upper_point_lower [of d P] upper_point_capital [of c P] by simp
qed

text \<open>Letters are below 255, so a surrogate has no other case.\<close>

lemma same_letter_beyond: "same_letter c d \<Longrightarrow> 256 \<le> c \<or> 256 \<le> d \<Longrightarrow> c = d"
  unfolding same_letter_def is_lower_letter_def by auto

lemma surrogate_pair_case:
  assumes "same_letter c c'" and "same_letter d d'"
    and "surrogate_pair c d \<or> surrogate_pair c' d'"
  shows "c' = c" and "d' = d"
  using assms same_letter_beyond [of c c'] same_letter_beyond [of d d']
  by (auto simp: surrogate_pair_def)

lemma case_variant_points:
  "list_all2 same_letter r r' \<Longrightarrow>
   concat (map (upper_point P) (code_points r)) = concat (map (upper_point P) (code_points r'))"
proof (induction r arbitrary: r' rule: code_points.induct)
  case 1
  then show ?case by simp
next
  case (2 c)
  then obtain c' where "r' = [c']" and "same_letter c c'"
    by (auto simp: list_all2_Cons1)
  then show ?case
    by (simp add: same_letter_upper)
next
  case (3 c d s)
  from "3.prems" obtain c' d' s' where r: "r' = c' # d' # s'"
    and l: "same_letter c c'" "same_letter d d'" "list_all2 same_letter s s'"
    by (auto simp: list_all2_Cons1)
  show ?case
  proof (cases "surrogate_pair c d")
    case True
    with l have e: "c' = c" "d' = d"
      using surrogate_pair_case [of c c' d d'] by simp_all
    from "3.IH"(1) [OF True l(3)] show ?thesis
      by (simp add: r e True)
  next
    case False
    have n: "\<not> surrogate_pair c' d'"
    proof
      assume "surrogate_pair c' d'"
      with l have "c' = c" "d' = d"
        using surrogate_pair_case [of c c' d d'] by simp_all
      with \<open>surrogate_pair c' d'\<close> False show False by simp
    qed
    from l have t: "list_all2 same_letter (d # s) (d' # s')"
      by simp
    from "3.IH"(2) [OF False t] show ?thesis
      by (simp add: r False n same_letter_upper [OF l(1)])
  qed
qed

lemma case_variant_upper: "case_variant r r' \<Longrightarrow> toUpperCase P r = toUpperCase P r'"
  unfolding case_variant_def toUpperCase_def by (rule case_variant_points)

lemma digits_fixed_width: "digits n = fixed_width (digit_count n) n"
proof (induction n rule: digits.induct)
  case (1 n)
  show ?case
  proof (cases "n < 10")
    case True
    then show ?thesis
      by (simp add: digits.simps [of n] digit_count.simps [of n])
  next
    case False
    with 1 show ?thesis
      by (simp add: digits.simps [of n] digit_count.simps [of n])
  qed
qed

lemma request_id_text:
  assumes "spec_request_id_text P v = Some t"
  shows "ToString P v = Inr t"
proof (cases v)
  case (JNumber x)
  show ?thesis
  proof (cases "x = of_int \<lfloor>x\<rfloor> \<and> \<bar>x\<bar> \<le> 9007199254740991")
    case True
    with assms JNumber have t: "t = decimal_numeral \<lfloor>x\<rfloor>"
      by simp
    from True have s: "is_safe_integer x"
      by (simp add: is_safe_integer_def abs_le_iff)
    show ?thesis
      by (simp add: JNumber Number_toString_def s t decimal_numeral_def digits_fixed_width)
  next
    case False
    with assms JNumber have t: "t = Number_text P x"
      by auto
    from False have s: "\<not> is_safe_integer x"
      by (auto simp: is_safe_integer_def abs_le_iff)
    show ?thesis
      by (simp add: JNumber Number_toString_def s t)
  qed
qed (use assms in auto)

section \<open>The path of a request through the handler\<close>

lemma try_block_sent:
  "sent (generate_token P cfg cardPan now rb) = fst (snd (try_block P cfg cardPan now rb))"
  by (simp add: generate_token_def Let_def split: prod.splits sum.splits option.splits)

text \<open>A request is sent only for a non-empty string \<open>cardPan\<close> and a valid service URL.\<close>

lemma sent_origin:
  assumes "sent (generate_token P cfg cardPan now rb) = Some req"
  obtains pan href where "cardPan = JString pan" and "pan \<noteq> []"
    and "URL_href P (TOKEN_SERVICE_URL cfg)
           [(str ''CARD_PAN'', pan),
            (str ''REQUEST_API_VERSION'', API_VERSION cfg),
            (str ''UNIQUE_ID'', generateUniqueId rb),
            (str ''SITE_ID'', SITE_ID cfg),
            (str ''REQUEST_RESPONSE_FORMAT'', str ''JSON'')] = Some href"
    and "req = \<lparr>url = href, request_headers =
           [(str ''X-SIGNATURE'', generateSignature P (SECRET_KEY cfg)
               (generateTimestamp P now @ generateUniqueId rb @ SITE_ID cfg)),
            (str ''X-TIMESTAMP'', generateTimestamp P now)]\<rparr>"
  using assms unfolding try_block_sent
  by (auto simp: try_block_def Let_def
      split: if_splits jsval.splits option.splits axios_result.splits sum.splits prod.splits)

text \<open>
  When the service answers and the body parses, the rest of the \<^verbatim>\<open>try\<close> block is
  \<open>check_response\<close>; nothing logged before it is the heading of the verification log.
\<close>

lemma resolved_run:
  assumes "sent (generate_token P cfg cardPan now rb) = Some req"
    and "axios_get P req = Resolved resp"
    and "JSON_parse P (latin1 (data resp)) = Inr parsedData"
  shows "\<exists>pre. try_block P cfg cardPan now rb =
           (pre @ fst (check_response P cfg resp (latin1 (data resp)) parsedData), Some req,
            snd (check_response P cfg resp (latin1 (data resp)) parsedData))
         \<and> ConsoleLog [sv (10 # str ''--- Response Signature Verification ---'')] \<notin> set pre"
proof -
  from assms(1) obtain pan href where c: "cardPan = JString pan" "pan \<noteq> []"
    and u: "URL_href P (TOKEN_SERVICE_URL cfg)
           [(str ''CARD_PAN'', pan),
            (str ''REQUEST_API_VERSION'', API_VERSION cfg),
            (str ''UNIQUE_ID'', generateUniqueId rb),
            (str ''SITE_ID'', SITE_ID cfg),
            (str ''REQUEST_RESPONSE_FORMAT'', str ''JSON'')] = Some href"
    and r: "req = \<lparr>url = href, request_headers =
           [(str ''X-SIGNATURE'', generateSignature P (SECRET_KEY cfg)
               (generateTimestamp P now @ generateUniqueId rb @ SITE_ID cfg)),
            (str ''X-TIMESTAMP'', generateTimestamp P now)]\<rparr>"
    by (rule sent_origin)
  from assms(2) r have a: "axios_get P \<lparr>url = href, request_headers =
           [(str ''X-SIGNATURE'', generateSignature P (SECRET_KEY cfg)
               (generateTimestamp P now @ generateUniqueId rb @ SITE_ID cfg)),
            (str ''X-TIMESTAMP'', generateTimestamp P now)]\<rparr> = Resolved resp"
    by simp
  show ?thesis
    unfolding try_block_def c
    by (simp add: Let_def c u a r assms(3) split: prod.splits)
      (simp add: sv_def lit_def str_def)
qed

lemma resolved_reply:
  assumes "sent (generate_token P cfg cardPan now rb) = Some req"
    and "axios_get P req = Resolved resp"
    and "JSON_parse P (latin1 (data resp)) = Inr parsedData"
    and "check_response P cfg resp (latin1 (data resp)) parsedData = (lg, Inr r)"
  shows "reply (generate_token P cfg cardPan now rb) = r"
    and "\<exists>pre. console (generate_token P cfg cardPan now rb) = pre @ lg
           \<and> ConsoleLog [sv (10 # str ''--- Response Signature Verification ---'')] \<notin> set pre"
  using resolved_run [OF assms(1-3)] assms(4)
  by (auto simp: generate_token_def)

section \<open>Evaluation on the sample data\<close>

lemmas sample_defs = sample_config_def sample_now_def sample_random_def stub_hmac_def
  sample_body_def zero_body_def stub_parse_def stub_href_def stub_platform_def
  stub_response_def sample_pan_def sample_request_def sample_payload_def
  signed_response_def forged_response_def
  unsigned_response_def zero_id_response_def indented_response_def

section \<open>The response verifier\<close>

text \<open>
  C3. For every secret key, received signature, server timestamp, request id (a string or
  a number) and trimmed raw body: the signature that \<open>verifyResponseSignature\<close>
  expects, logs and compares is the keyed hash, under that secret key, of the server
  timestamp, then the request id as its canonical string (a string id itself, a numeric
  id as the text of the number, which for a safe integer is its decimal numeral), then
  the trimmed raw body, with no delimiter and no merchant id, written in upper-case
  hexadecimal; the call is valid exactly when the upper-cased received signature equals
  it.
\<close>

theorem expected_signature_is_keyed_hash:
  assumes "spec_request_id_text P tokenRequestId = Some requestIdAsString"
  shows "verifyResponseSignature P secretKey receivedSignature serverTimestamp tokenRequestId
           trimmedRawBody =
         ([ConsoleLog [sv (10 # str ''--- Response Signature Verification ---'')],
           ConsoleLog [lit ''Server Timestamp:'', sv serverTimestamp],
           ConsoleLog [lit ''Token Request ID:'', Val tokenRequestId],
           ConsoleLog [lit ''Expected Signature:'', sv (spec_expected_signature P secretKey
              serverTimestamp requestIdAsString trimmedRawBody)],
           ConsoleLog [lit ''Received Signature:'', sv (toUpperCase P receivedSignature)],
           ConsoleLog [lit ''Result:'',
             sv (if spec_expected_signature P secretKey serverTimestamp requestIdAsString
                      trimmedRawBody
                   = toUpperCase P receivedSignature
                 then 9989 # str '' VALID'' else 10060 # str '' INVALID'')]],
          Inr (spec_expected_signature P secretKey serverTimestamp requestIdAsString
                 trimmedRawBody
                 = toUpperCase P receivedSignature))
       \<and> list_all is_upper_hex
           (spec_expected_signature P secretKey serverTimestamp requestIdAsString
              trimmedRawBody)"
  using request_id_text [OF assms]
  by (simp add: verifyResponseSignature_def generateSignature_def spec_expected_signature_def
      toUpperCase_hex upper_hex_is_upper Let_def)

theorem expected_signature_is_keyed_hash_witness:
  "spec_request_id_text (stub_platform signed_response) (JNumber 29973496)
     = Some (str ''29973496'')
   \<and> spec_expected_signature (stub_platform signed_response) (str ''Password123'')
        (str ''20251103170005'') (str ''29973496'') sample_body = str ''5727''
   \<and> snd (verifyResponseSignature (stub_platform signed_response) (str ''Password123'')
        (str ''5727'') (str ''20251103170005'') (JNumber 29973496) sample_body) = Inr True
   \<and> spec_request_id_text (stub_platform signed_response) (JNumber (- 12))
     = Some (str ''-12'')
   \<and> spec_request_id_text (stub_platform signed_response) (JNumber 0) = Some (str ''0'')
   \<and> spec_request_id_text (stub_platform signed_response) (JNumber 9007199254740991)
     = Some (str ''9007199254740991'')
   \<and> spec_request_id_text (stub_platform signed_response) (JString (str ''REQ-7''))
     = Some (str ''REQ-7'')
   \<and> snd (verifyResponseSignature (stub_platform signed_response) (str ''Password123'')
        (str ''f224'') (str ''20251103170005'') (JString (str ''REQ-7'')) sample_body)
        = Inr True"
proof -
  have n: "spec_request_id_text (stub_platform signed_response) (JNumber 29973496)
     = Some (str ''29973496'')"
    "spec_request_id_text (stub_platform signed_response) (JNumber (- 12))
     = Some (str ''-12'')"
    "spec_request_id_text (stub_platform signed_response) (JNumber 0) = Some (str ''0'')"
    "spec_request_id_text (stub_platform signed_response) (JNumber 9007199254740991)
     = Some (str ''9007199254740991'')"
    by (simp_all add: decimal_numeral_def digit_count.simps str_def)
  have s: "spec_request_id_text (stub_platform signed_response) (JString (str ''REQ-7''))
     = Some (str ''REQ-7'')"
    by simp
  have e: "spec_expected_signature (stub_platform signed_response) (str ''Password123'')
        (str ''20251103170005'') (str ''29973496'') sample_body = str ''5727''"
    "spec_expected_signature (stub_platform signed_response) (str ''Password123'')
        (str ''20251103170005'') (str ''REQ-7'') sample_body = str ''F224''"
    by (simp_all add: spec_expected_signature_def upper_hex_def upper_hex_digit_def
        sample_defs str_def)
  have u: "toUpperCase (stub_platform signed_response) (str ''5727'') = str ''5727''"
    "toUpperCase (stub_platform signed_response) (str ''f224'') = str ''F224''"
    by (simp_all add: toUpperCase_def upper_point_def surrogate_pair_def str_def)
  from expected_signature_is_keyed_hash [OF n(1), of "str ''Password123''" "str ''5727''"
      "str ''20251103170005''" sample_body]
    expected_signature_is_keyed_hash [OF s, of "str ''Password123''" "str ''f224''"
      "str ''20251103170005''" sample_body]
  show ?thesis
    using n s e u by simp
qed

text \<open>
  C4. Round trip: a signature made by \<open>generateSignature\<close> over
  \<open>timestamp @ reqid @ body\<close> with a secret key verifies as valid when it is given to
  \<open>verifyResponseSignature\<close> with the same secret key, timestamp, request id and body.
\<close>

theorem response_round_trip:
  assumes "ToString P requestId = Inr reqid"
  shows "snd (verifyResponseSignature P secretKey
           (generateSignature P secretKey (timestamp @ reqid @ body))
           timestamp requestId body) = Inr True"
  using assms by (simp add: verifyResponseSignature_def Let_def)

theorem response_round_trip_witness:
  "ToString (stub_platform signed_response) (JNumber 7) = Inr (str ''7'')
   \<and> generateSignature (stub_platform signed_response) (str ''Password123'')
        (str ''20251103170005'' @ str ''7'' @ sample_body) = str ''dd20''
   \<and> snd (verifyResponseSignature (stub_platform signed_response) (str ''Password123'')
        (str ''dd20'') (str ''20251103170005'') (JNumber 7) sample_body) = Inr True"
proof -
  have h: "ToString (stub_platform signed_response) (JNumber 7) = Inr (str ''7'')"
    by (simp add: Number_toString_def is_safe_integer_def digits.simps str_def)
  have g: "generateSignature (stub_platform signed_response) (str ''Password123'')
        (str ''20251103170005'' @ str ''7'' @ sample_body) = str ''dd20''"
    by (simp add: generateSignature_def hex_def hex_byte_def hex_digit_def sample_defs str_def)
  from response_round_trip [OF h, of "str ''Password123''" "str ''20251103170005''"
      sample_body]
  show ?thesis using h g by simp
qed

text \<open>
  C6. The comparison ignores case: two received signatures that differ only in the case
  of letters give the same result and the same console output, and so every case
  variant of the correct signature verifies as valid.
\<close>

theorem signature_comparison_ignores_case:
  assumes "case_variant r r'"
  shows "verifyResponseSignature P secretKey r timestamp requestId body =
         verifyResponseSignature P secretKey r' timestamp requestId body
       \<and> (ToString P requestId = Inr reqid
            \<and> r' = generateSignature P secretKey (timestamp @ reqid @ body)
          \<longrightarrow> snd (verifyResponseSignature P secretKey r timestamp requestId body) = Inr True)"
  using case_variant_upper [OF assms]
  by (auto simp: verifyResponseSignature_def Let_def split: sum.splits)

theorem signature_comparison_ignores_case_witness:
  "case_variant (str ''Dd20'') (str ''dd20'')
   \<and> generateSignature (stub_platform signed_response) (str ''Password123'')
        (str ''20251103170005'' @ str ''7'' @ sample_body) = str ''dd20''
   \<and> snd (verifyResponseSignature (stub_platform signed_response) (str ''Password123'')
        (str ''Dd20'') (str ''20251103170005'') (JNumber 7) sample_body) = Inr True"
proof -
  have c: "case_variant (str ''Dd20'') (str ''dd20'')"
    by (simp add: case_variant_def same_letter_def is_lower_letter_def str_def)
  have h: "ToString (stub_platform signed_response) (JNumber 7) = Inr (str ''7'')"
    by (simp add: Number_toString_def is_safe_integer_def digits.simps str_def)
  have g: "generateSignature (stub_platform signed_response) (str ''Password123'')
        (str ''20251103170005'' @ str ''7'' @ sample_body) = str ''dd20''"
    by (simp add: generateSignature_def hex_def hex_byte_def hex_digit_def sample_defs str_def)
  from signature_comparison_ignores_case [OF c, of "stub_platform signed_response"
      "str ''Password123''" "str ''20251103170005''" "JNumber 7" sample_body "str ''7''"]
  show ?thesis using c h g g [symmetric] by blast
qed

section \<open>The request signer\<close>

lemma sent_when_url_valid:
  assumes "pan \<noteq> []"
    and "URL_href P (TOKEN_SERVICE_URL cfg)
           [(str ''CARD_PAN'', pan),
            (str ''REQUEST_API_VERSION'', API_VERSION cfg),
            (str ''UNIQUE_ID'', generateUniqueId rb),
            (str ''SITE_ID'', SITE_ID cfg),
            (str ''REQUEST_RESPONSE_FORMAT'', str ''JSON'')] = Some href"
  shows "sent (generate_token P cfg (JString pan) now rb) =
           Some \<lparr>url = href, request_headers =
             [(str ''X-SIGNATURE'', generateSignature P (SECRET_KEY cfg)
                 (generateTimestamp P now @ generateUniqueId rb @ SITE_ID cfg)),
              (str ''X-TIMESTAMP'', generateTimestamp P now)]\<rparr>"
  using assms unfolding try_block_sent
  by (simp add: try_block_def Let_def split: axios_result.splits sum.splits prod.splits)

lemma sample_timestamp: "generateTimestamp (stub_platform r) sample_now = str ''20251103170000''"
  by (simp add: sample_now_def generateTimestamp_def Number_toString_def is_safe_integer_def
      digits.simps padStart_def str_def Let_def)

lemma sample_unique_id:
  "generateUniqueId sample_random = str ''0123456789abcdeffedcba9876543210''"
  by (simp add: sample_random_def generateUniqueId_def hex_def hex_byte_def hex_digit_def str_def)

lemma sample_request_signature:
  "generateSignature (stub_platform r) (str ''Password123'')
     (str ''20251103170000'' @ str ''0123456789abcdeffedcba9876543210'' @ str ''9201'')
   = str ''2f32''"
  by (simp add: generateSignature_def stub_platform_def stub_hmac_def hex_def hex_byte_def
      hex_digit_def str_def)


lemma sample_sent:
  "sent (generate_token (stub_platform r) sample_config sample_pan sample_now sample_random)
     = Some sample_request"
proof -
  have u: "URL_href (stub_platform r) (TOKEN_SERVICE_URL sample_config)
           [(str ''CARD_PAN'', str ''409159111111111''),
            (str ''REQUEST_API_VERSION'', API_VERSION sample_config),
            (str ''UNIQUE_ID'', generateUniqueId sample_random),
            (str ''SITE_ID'', SITE_ID sample_config),
            (str ''REQUEST_RESPONSE_FORMAT'', str ''JSON'')] = Some (url sample_request)"
    unfolding sample_unique_id
    by (simp add: stub_platform_def stub_href_def sample_config_def sample_request_def str_def)
  have p: "str ''409159111111111'' \<noteq> []"
    by (simp add: str_def)
  have k: "SECRET_KEY sample_config = str ''Password123''" "SITE_ID sample_config = str ''9201''"
    by (simp_all add: sample_config_def)
  show ?thesis
    unfolding sample_pan_def sent_when_url_valid [OF p u] sample_timestamp sample_unique_id k
      sample_request_signature
    by (simp add: sample_request_def)
qed

text \<open>
  C5. For every tokenization attempt that sends a request: the signature in the
  \<^verbatim>\<open>X-SIGNATURE\<close> header is the keyed hash, under the secret key, of the timestamp,
  the nonce and the site id concatenated in this order with no delimiter, written in
  lower-case hexadecimal; the \<^verbatim>\<open>X-TIMESTAMP\<close> header is that same timestamp.
\<close>

theorem request_signature:
  assumes "sent (generate_token P cfg cardPan now randomBytes) = Some req"
  shows "request_headers req =
           [(str ''X-SIGNATURE'', hex (hmac_sha256 P (SECRET_KEY cfg)
               (generateTimestamp P now @ generateUniqueId randomBytes @ SITE_ID cfg))),
            (str ''X-TIMESTAMP'', generateTimestamp P now)]
       \<and> list_all is_lower_hex (hex (hmac_sha256 P (SECRET_KEY cfg)
               (generateTimestamp P now @ generateUniqueId randomBytes @ SITE_ID cfg)))"
proof -
  from assms obtain pan href where "req = \<lparr>url = href, request_headers =
           [(str ''X-SIGNATURE'', generateSignature P (SECRET_KEY cfg)
               (generateTimestamp P now @ generateUniqueId randomBytes @ SITE_ID cfg)),
            (str ''X-TIMESTAMP'', generateTimestamp P now)]\<rparr>"
    by (rule sent_origin)
  then show ?thesis
    by (simp add: generateSignature_def hex_is_lower)
qed

theorem request_signature_witness:
  "sent (generate_token (stub_platform signed_response) sample_config sample_pan sample_now
      sample_random) = Some sample_request
   \<and> request_headers sample_request =
       [(str ''X-SIGNATURE'', hex (hmac_sha256 (stub_platform signed_response)
           (str ''Password123'')
           (str ''20251103170000'' @ str ''0123456789abcdeffedcba9876543210'' @ str ''9201''))),
        (str ''X-TIMESTAMP'', str ''20251103170000'')]"
proof -
  have k: "SECRET_KEY sample_config = str ''Password123''" "SITE_ID sample_config = str ''9201''"
    by (simp_all add: sample_config_def)
  from request_signature [OF sample_sent [of signed_response]]
  show ?thesis
    unfolding sample_timestamp sample_unique_id k
    using sample_sent [of signed_response] by blast
qed

section \<open>The handler's replies\<close>

lemma check_response_skip:
  assumes "get_TOKEN_REQID parsedData = Inr tokenRequestId"
    and "map_of (headers resp) (str ''x-signature'') \<in> {None, Some []}
       \<or> map_of (headers resp) (str ''x-timestamp'') \<in> {None, Some []}
       \<or> \<not> truthy tokenRequestId"
  shows "check_response P cfg resp rawResponseBody parsedData =
     ([ConsoleWarn [sv ([9888, 65039] @
         str '' Response missing signature headers - skipping verification'')]],
      Inr \<lparr>res_status = 200, res_json = JObject
            [(str ''success'', JBool True),
             (str ''signatureVerified'', JBool True),
             (str ''token'', parsedData)]\<rparr>)"
  using assms
  by (auto simp: check_response_def Let_def split: option.splits)

lemma check_response_failed:
  assumes "get_TOKEN_REQID parsedData = Inr tokenRequestId"
    and "map_of (headers resp) (str ''x-signature'') = Some serverSignature"
    and "map_of (headers resp) (str ''x-timestamp'') = Some serverTimestamp"
    and "serverSignature \<noteq> []" and "serverTimestamp \<noteq> []" and "truthy tokenRequestId"
    and "ToString P tokenRequestId = Inr reqid"
    and "snd (verifyResponseSignature P (SECRET_KEY cfg) serverSignature serverTimestamp
           tokenRequestId (trim rawResponseBody)) = Inr False"
  shows "snd (check_response P cfg resp rawResponseBody parsedData) =
      Inr \<lparr>res_status = 200, res_json = JObject
           [(str ''success'', JBool False),
            (str ''error'', JString (str ''Response signature verification failed'')),
            (str ''signatureVerified'', JBool False),
            (str ''receivedSignature'', JString serverSignature),
            (str ''expectedSignature'', JString (upper_hex (hmac_sha256 P (SECRET_KEY cfg)
               (serverTimestamp @ reqid @ trim rawResponseBody)))),
            (str ''serverTimestamp'', JString serverTimestamp),
            (str ''tokenRequestId'', tokenRequestId),
            (str ''responseData'', parsedData)]\<rparr>"
proof -
  from assms(8) obtain vlog where
    "verifyResponseSignature P (SECRET_KEY cfg) serverSignature serverTimestamp
       tokenRequestId (trim rawResponseBody) = (vlog, Inr False)"
    by (cases "verifyResponseSignature P (SECRET_KEY cfg) serverSignature serverTimestamp
       tokenRequestId (trim rawResponseBody)") simp
  with assms(1-7) show ?thesis
    by (simp add: check_response_def Let_def generateSignature_def toUpperCase_hex)
qed

text \<open>
  C8. For every response whose signature verification fails (both headers and the request
  id are present and truthy, and \<open>verifyResponseSignature\<close> returns false), the handler
  does not throw: it replies with status 200 and the body \<open>success: false\<close>, an error
  message, \<open>signatureVerified: false\<close>, the received signature, the expected signature
  in upper-case hexadecimal, the server timestamp, the token request id and the parsed
  response data.
\<close>

theorem verification_failure_reply:
  assumes "sent (generate_token P cfg cardPan now randomBytes) = Some req"
    and "axios_get P req = Resolved resp"
    and "JSON_parse P (latin1 (data resp)) = Inr parsedData"
    and "get_TOKEN_REQID parsedData = Inr tokenRequestId"
    and "map_of (headers resp) (str ''x-signature'') = Some serverSignature"
    and "map_of (headers resp) (str ''x-timestamp'') = Some serverTimestamp"
    and "serverSignature \<noteq> []" and "serverTimestamp \<noteq> []" and "truthy tokenRequestId"
    and "ToString P tokenRequestId = Inr reqid"
    and "snd (verifyResponseSignature P (SECRET_KEY cfg) serverSignature serverTimestamp
           tokenRequestId (trim (latin1 (data resp)))) = Inr False"
  shows "reply (generate_token P cfg cardPan now randomBytes) =
      \<lparr>res_status = 200, res_json = JObject
         [(str ''success'', JBool False),
          (str ''error'', JString (str ''Response signature verification failed'')),
          (str ''signatureVerified'', JBool False),
          (str ''receivedSignature'', JString serverSignature),
          (str ''expectedSignature'', JString (upper_hex (hmac_sha256 P (SECRET_KEY cfg)
             (serverTimestamp @ reqid @ trim (latin1 (data resp)))))),
          (str ''serverTimestamp'', JString serverTimestamp),
          (str ''tokenRequestId'', tokenRequestId),
          (str ''responseData'', parsedData)]\<rparr>"
proof -
  obtain lg r where c: "check_response P cfg resp (latin1 (data resp)) parsedData = (lg, r)"
    by (cases "check_response P cfg resp (latin1 (data resp)) parsedData")
  with check_response_failed [OF assms(4-11)]
  have "check_response P cfg resp (latin1 (data resp)) parsedData = (lg, 
      Inr \<lparr>res_status = 200, res_json = JObject
         [(str ''success'', JBool False),
          (str ''error'', JString (str ''Response signature verification failed'')),
          (str ''signatureVerified'', JBool False),
          (str ''receivedSignature'', JString serverSignature),
          (str ''expectedSignature'', JString (upper_hex (hmac_sha256 P (SECRET_KEY cfg)
             (serverTimestamp @ reqid @ trim (latin1 (data resp)))))),
          (str ''serverTimestamp'', JString serverTimestamp),
          (str ''tokenRequestId'', tokenRequestId),
          (str ''responseData'', parsedData)]\<rparr>)"
    by simp
  from resolved_reply(1) [OF assms(1-3) this] show ?thesis .
qed

text \<open>
  C10. When the signature header or the timestamp header is absent or the empty string,
  or the parsed \<open>TOKEN_REQID\<close> is falsy (the number 0 included), the handler skips the
  verification: the verification log never starts, the last console entry is the
  warning of the skipped verification, and the reply is the same successful reply in
  each of these cases, whether the field is falsy or missing.
\<close>

theorem falsy_field_skips_verification:
  assumes "sent (generate_token P cfg cardPan now randomBytes) = Some req"
    and "axios_get P req = Resolved resp"
    and "JSON_parse P (latin1 (data resp)) = Inr parsedData"
    and "get_TOKEN_REQID parsedData = Inr tokenRequestId"
    and "map_of (headers resp) (str ''x-signature'') \<in> {None, Some []}
       \<or> map_of (headers resp) (str ''x-timestamp'') \<in> {None, Some []}
       \<or> \<not> truthy tokenRequestId"
  shows "reply (generate_token P cfg cardPan now randomBytes) =
           \<lparr>res_status = 200, res_json = JObject
              [(str ''success'', JBool True),
               (str ''signatureVerified'', JBool True),
               (str ''token'', parsedData)]\<rparr>
       \<and> last (console (generate_token P cfg cardPan now randomBytes)) =
           ConsoleWarn [sv ([9888, 65039] @
             str '' Response missing signature headers - skipping verification'')]
       \<and> ConsoleLog [sv (10 # str ''--- Response Signature Verification ---'')]
           \<notin> set (console (generate_token P cfg cardPan now randomBytes))"
  using resolved_reply [OF assms(1-3) check_response_skip [OF assms(4,5)]]
  by auto


lemma check_response_verified:
  assumes "get_TOKEN_REQID parsedData = Inr tokenRequestId"
    and "map_of (headers resp) (str ''x-signature'') = Some serverSignature"
    and "map_of (headers resp) (str ''x-timestamp'') = Some serverTimestamp"
    and "serverSignature \<noteq> []" and "serverTimestamp \<noteq> []" and "truthy tokenRequestId"
    and "snd (verifyResponseSignature P (SECRET_KEY cfg) serverSignature serverTimestamp
           tokenRequestId (trim rawResponseBody)) = Inr True"
  shows "snd (check_response P cfg resp rawResponseBody parsedData) =
      Inr \<lparr>res_status = 200, res_json = JObject
            [(str ''success'', JBool True),
             (str ''signatureVerified'', JBool True),
             (str ''token'', parsedData)]\<rparr>"
proof -
  from assms(7) obtain vlog where
    "verifyResponseSignature P (SECRET_KEY cfg) serverSignature serverTimestamp
       tokenRequestId (trim rawResponseBody) = (vlog, Inr True)"
    by (cases "verifyResponseSignature P (SECRET_KEY cfg) serverSignature serverTimestamp
       tokenRequestId (trim rawResponseBody)") simp
  with assms(1-6) show ?thesis
    by (simp add: check_response_def Let_def)
qed

lemma resolved_reply_snd:
  assumes "sent (generate_token P cfg cardPan now rb) = Some req"
    and "axios_get P req = Resolved resp"
    and "JSON_parse P (latin1 (data resp)) = Inr parsedData"
    and "snd (check_response P cfg resp (latin1 (data resp)) parsedData) = Inr r"
  shows "reply (generate_token P cfg cardPan now rb) = r"
proof -
  from assms(4) obtain lg where
    "check_response P cfg resp (latin1 (data resp)) parsedData = (lg, Inr r)"
    by (cases "check_response P cfg resp (latin1 (data resp)) parsedData") simp
  from resolved_reply(1) [OF assms(1-3) this] show ?thesis .
qed

lemma latin1_stub: "latin1 (data (stub_response hs body)) = map (\<lambda>c. c mod 256) body"
  by (simp add: latin1_def stub_response_def unat_of_nat)

lemma sample_bodies:
  "latin1 (data signed_response) = sample_body @ [10]"
  "latin1 (data forged_response) = sample_body @ [10]"
  "latin1 (data unsigned_response) = sample_body @ [10]"
  "latin1 (data zero_id_response) = zero_body @ [10]"
  "latin1 (data indented_response) = 32 # sample_body @ [10]"
  by (simp_all add: signed_response_def forged_response_def unsigned_response_def
      zero_id_response_def indented_response_def latin1_stub sample_body_def zero_body_def
      str_def)

lemma sample_parses:
  "JSON_parse (stub_platform r) (sample_body @ [10]) = Inr sample_payload"
  "JSON_parse (stub_platform r) (32 # sample_body @ [10]) = Inr sample_payload"
  "JSON_parse (stub_platform r) (zero_body @ [10]) = Inr (JObject [(str ''TOKEN_REQID'', JNumber 0)])"
  by (simp_all add: stub_platform_def stub_parse_def sample_payload_def sample_body_def
      zero_body_def str_def)

lemma sample_trims:
  "trim (sample_body @ [10]) = sample_body"
  "trim (32 # sample_body @ [10]) = sample_body"
  "strip_trailing (32 # sample_body @ [10]) = 32 # sample_body"
  by (simp_all add: trim_def strip_trailing_def is_white_space_def sample_body_def str_def)

lemma sample_request_ids:
  "get_TOKEN_REQID sample_payload = Inr (JNumber 7)"
  "get_TOKEN_REQID (JObject [(str ''TOKEN_REQID'', JNumber 0)]) = Inr (JNumber 0)"
  "ToString (stub_platform r) (JNumber 7) = Inr (str ''7'')"
  by (simp_all add: sample_payload_def Number_toString_def is_safe_integer_def digits.simps
      str_def)

lemma sample_headers:
  "map_of (headers signed_response) (str ''x-signature'') = Some (str ''DD20'')"
  "map_of (headers signed_response) (str ''x-timestamp'') = Some (str ''20251103170005'')"
  "map_of (headers forged_response) (str ''x-signature'') = Some (str ''DD21'')"
  "map_of (headers forged_response) (str ''x-timestamp'') = Some (str ''20251103170005'')"
  "map_of (headers unsigned_response) (str ''x-signature'') = None"
  "map_of (headers zero_id_response) (str ''x-signature'') = Some (str ''D620'')"
  "map_of (headers zero_id_response) (str ''x-timestamp'') = Some (str ''20251103170005'')"
  by (simp_all add: signed_response_def forged_response_def unsigned_response_def
      zero_id_response_def stub_response_def str_def)

lemma indented_headers:
  "map_of (headers indented_response) (str ''x-signature'') = Some (str ''FD21'')"
  "map_of (headers indented_response) (str ''x-timestamp'') = Some (str ''20251103170005'')"
  unfolding indented_response_def sample_trims
  by (simp_all add: stub_response_def upper_hex_def upper_hex_digit_def stub_hmac_def
      sample_body_def str_def)

lemma sample_verifications:
  "snd (verifyResponseSignature (stub_platform r) (SECRET_KEY sample_config) (str ''DD20'')
          (str ''20251103170005'') (JNumber 7) sample_body) = Inr True"
  "snd (verifyResponseSignature (stub_platform r) (SECRET_KEY sample_config) (str ''DD21'')
          (str ''20251103170005'') (JNumber 7) sample_body) = Inr False"
  "snd (verifyResponseSignature (stub_platform r) (SECRET_KEY sample_config) (str ''FD21'')
          (str ''20251103170005'') (JNumber 7) sample_body) = Inr False"
  by (simp_all add: verifyResponseSignature_def Number_toString_def is_safe_integer_def
      digits.simps generateSignature_def hex_def hex_byte_def hex_digit_def toUpperCase_def
      upper_point_def surrogate_pair_def stub_platform_def stub_hmac_def sample_config_def
      sample_body_def str_def Let_def)

lemma sample_expected:
  "upper_hex (hmac_sha256 (stub_platform r) (SECRET_KEY sample_config)
     (str ''20251103170005'' @ str ''7'' @ sample_body)) = str ''DD20''"
  by (simp add: upper_hex_def upper_hex_digit_def stub_platform_def stub_hmac_def
      sample_config_def sample_body_def str_def)

lemma sample_nonempty: "str ''DD20'' \<noteq> []" "str ''DD21'' \<noteq> []" "str ''FD21'' \<noteq> []"
  "str ''D620'' \<noteq> []" "str ''20251103170005'' \<noteq> []"
  by (simp_all add: str_def)

lemma stub_answers: "axios_get (stub_platform r) req = Resolved r"
  by (simp add: stub_platform_def)

theorem verification_failure_reply_witness:
  "snd (verifyResponseSignature (stub_platform forged_response) (SECRET_KEY sample_config)
          (str ''DD21'') (str ''20251103170005'') (JNumber 7)
          (trim (latin1 (data forged_response)))) = Inr False
   \<and> reply (generate_token (stub_platform forged_response) sample_config sample_pan
        sample_now sample_random) =
      \<lparr>res_status = 200, res_json = JObject
         [(str ''success'', JBool False),
          (str ''error'', JString (str ''Response signature verification failed'')),
          (str ''signatureVerified'', JBool False),
          (str ''receivedSignature'', JString (str ''DD21'')),
          (str ''expectedSignature'', JString (str ''DD20'')),
          (str ''serverTimestamp'', JString (str ''20251103170005'')),
          (str ''tokenRequestId'', JNumber 7),
          (str ''responseData'', sample_payload)]\<rparr>"
proof -
  have v: "snd (verifyResponseSignature (stub_platform forged_response)
          (SECRET_KEY sample_config) (str ''DD21'') (str ''20251103170005'') (JNumber 7)
          (trim (latin1 (data forged_response)))) = Inr False"
    by (simp add: sample_bodies sample_trims sample_verifications)
  have p: "JSON_parse (stub_platform forged_response) (latin1 (data forged_response))
      = Inr sample_payload"
    by (simp add: sample_bodies sample_parses)
  from verification_failure_reply [OF sample_sent stub_answers p sample_request_ids(1)
      sample_headers(3) sample_headers(4) sample_nonempty(2) sample_nonempty(5) _
      sample_request_ids(3) v]
  show ?thesis using v
    by (simp add: sample_bodies sample_trims sample_expected)
qed

theorem falsy_field_skips_verification_witness:
  "map_of (headers zero_id_response) (str ''x-signature'') = Some (str ''D620'')
   \<and> map_of (headers zero_id_response) (str ''x-timestamp'') = Some (str ''20251103170005'')
   \<and> \<not> truthy (JNumber 0)
   \<and> reply (generate_token (stub_platform zero_id_response) sample_config sample_pan
        sample_now sample_random) =
      \<lparr>res_status = 200, res_json = JObject
         [(str ''success'', JBool True),
          (str ''signatureVerified'', JBool True),
          (str ''token'', JObject [(str ''TOKEN_REQID'', JNumber 0)])]\<rparr>
   \<and> last (console (generate_token (stub_platform zero_id_response) sample_config sample_pan
        sample_now sample_random)) =
      ConsoleWarn [sv ([9888, 65039] @
        str '' Response missing signature headers - skipping verification'')]"
proof -
  have p: "JSON_parse (stub_platform zero_id_response) (latin1 (data zero_id_response))
      = Inr (JObject [(str ''TOKEN_REQID'', JNumber 0)])"
    by (simp add: sample_bodies sample_parses)
  have f: "map_of (headers zero_id_response) (str ''x-signature'') \<in> {None, Some []}
       \<or> map_of (headers zero_id_response) (str ''x-timestamp'') \<in> {None, Some []}
       \<or> \<not> truthy (JNumber 0)"
    by simp
  from falsy_field_skips_verification [OF sample_sent stub_answers p sample_request_ids(2) f]
  show ?thesis
    by (simp add: sample_headers)
qed

section \<open>Responses that are not verified\<close>

text \<open>
  C1. A response without the signature header is not verified, and the specification
  asks that it be reported as unauthenticated, a state distinct from verified. The handler
  run on such a response: the reply is \<open>success: true, signatureVerified: true\<close> with
  the token, the very reply it gives for the same payload correctly signed.
\<close>

theorem skipped_verification_reported_as_verified:
  "map_of (headers unsigned_response) (str ''x-signature'') = None
   \<and> reply (generate_token (stub_platform unsigned_response) sample_config sample_pan
        sample_now sample_random) =
      \<lparr>res_status = 200, res_json = JObject
         [(str ''success'', JBool True),
          (str ''signatureVerified'', JBool True),
          (str ''token'', sample_payload)]\<rparr>
   \<and> reply (generate_token (stub_platform signed_response) sample_config sample_pan
        sample_now sample_random) =
      reply (generate_token (stub_platform unsigned_response) sample_config sample_pan
        sample_now sample_random)"
proof -
  have pu: "JSON_parse (stub_platform unsigned_response) (latin1 (data unsigned_response))
      = Inr sample_payload"
    by (simp add: sample_bodies sample_parses)
  have ps: "JSON_parse (stub_platform signed_response) (latin1 (data signed_response))
      = Inr sample_payload"
    by (simp add: sample_bodies sample_parses)
  have f: "map_of (headers unsigned_response) (str ''x-signature'') \<in> {None, Some []}
       \<or> map_of (headers unsigned_response) (str ''x-timestamp'') \<in> {None, Some []}
       \<or> \<not> truthy (JNumber 7)"
    by (simp add: sample_headers)
  have u: "reply (generate_token (stub_platform unsigned_response) sample_config sample_pan
        sample_now sample_random) =
      \<lparr>res_status = 200, res_json = JObject
         [(str ''success'', JBool True),
          (str ''signatureVerified'', JBool True),
          (str ''token'', sample_payload)]\<rparr>"
    by (rule resolved_reply(1) [OF sample_sent stub_answers pu
          check_response_skip [OF sample_request_ids(1) f]])
  have v: "snd (verifyResponseSignature (stub_platform signed_response)
          (SECRET_KEY sample_config) (str ''DD20'') (str ''20251103170005'') (JNumber 7)
          (trim (latin1 (data signed_response)))) = Inr True"
    by (simp add: sample_bodies sample_trims sample_verifications)
  have t: "truthy (JNumber 7)"
    by simp
  have s: "reply (generate_token (stub_platform signed_response) sample_config sample_pan
        sample_now sample_random) =
      \<lparr>res_status = 200, res_json = JObject
         [(str ''success'', JBool True),
          (str ''signatureVerified'', JBool True),
          (str ''token'', sample_payload)]\<rparr>"
    by (rule resolved_reply_snd [OF sample_sent stub_answers ps
          check_response_verified [OF sample_request_ids(1) sample_headers(1)
            sample_headers(2) sample_nonempty(1) sample_nonempty(5) t v]])
  show ?thesis
    using u s by (simp add: sample_headers)
qed

section \<open>The body that is verified\<close>

lemma verify_result:
  assumes "ToString P tokenRequestId = Inr reqid"
  shows "snd (verifyResponseSignature P secretKey receivedSignature serverTimestamp
           tokenRequestId body) =
         Inr (upper_hex (hmac_sha256 P secretKey (serverTimestamp @ reqid @ body))
                = toUpperCase P receivedSignature)"
  using assms
  by (simp add: verifyResponseSignature_def generateSignature_def toUpperCase_hex Let_def)

lemma rev_dropWhile_takeWhile:
  "xs = rev (dropWhile P (rev xs)) @ rev (takeWhile P (rev xs))"
proof -
  have "xs = rev (takeWhile P (rev xs) @ dropWhile P (rev xs))"
    by simp
  also have "\<dots> = rev (dropWhile P (rev xs)) @ rev (takeWhile P (rev xs))"
    by (rule rev_append)
  finally show ?thesis .
qed

lemma trim_decomposition:
  "\<exists>pre post. s = pre @ trim s @ post
      \<and> list_all is_white_space pre \<and> list_all is_white_space post"
proof -
  let ?t = "dropWhile is_white_space s"
  have a: "s = takeWhile is_white_space s @ ?t"
    by simp
  have b: "?t = trim s @ rev (takeWhile is_white_space (rev ?t))"
    unfolding trim_def by (rule rev_dropWhile_takeWhile)
  have c: "list_all is_white_space (takeWhile is_white_space s)"
    by (auto simp: list_all_iff dest: set_takeWhileD)
  have d: "list_all is_white_space (rev (takeWhile is_white_space (rev ?t)))"
    by (auto simp: list_all_iff dest: set_takeWhileD)
  from a b have "s = takeWhile is_white_space s @ trim s @
      rev (takeWhile is_white_space (rev ?t))"
    by simp
  with c d show ?thesis
    by blast
qed

lemma trim_ends:
  assumes "trim s \<noteq> []"
  shows "\<not> is_white_space (hd (trim s))" and "\<not> is_white_space (last (trim s))"
proof -
  let ?t = "dropWhile is_white_space s"
  let ?u = "dropWhile is_white_space (rev ?t)"
  from assms have u: "?u \<noteq> []"
    by (simp add: trim_def)
  then have "\<not> is_white_space (hd ?u)"
    by (rule hd_dropWhile)
  moreover have "last (trim s) = hd ?u"
    using u by (simp add: trim_def last_rev)
  ultimately show "\<not> is_white_space (last (trim s))"
    by simp
  have t: "?t \<noteq> []"
  proof
    assume "?t = []"
    with u show False by simp
  qed
  then have h: "\<not> is_white_space (hd ?t)"
    by (rule hd_dropWhile)
  have "?t = trim s @ rev (takeWhile is_white_space (rev ?t))"
    unfolding trim_def by (rule rev_dropWhile_takeWhile)
  with assms have "hd ?t = hd (trim s)"
    by (metis hd_append2)
  with h show "\<not> is_white_space (hd (trim s))"
    by simp
qed

text \<open>
  C2, as the code has it. For every response that is verified, the expected signature is
  computed over the server timestamp, the request id and \<open>trim\<close> of the raw body as it
  was received (decoded byte by byte), never over a serialisation of the parsed JSON; and
  \<open>trim\<close> removes white space at BOTH ends of the raw body and nothing else: what it
  removes is white space, what remains neither starts nor ends with white space, and
  everything between (internal white space included) is kept as it is.
\<close>

theorem verified_body_is_trimmed_wire_payload:
  assumes "sent (generate_token P cfg cardPan now randomBytes) = Some req"
    and "axios_get P req = Resolved resp"
    and "JSON_parse P (latin1 (data resp)) = Inr parsedData"
    and "get_TOKEN_REQID parsedData = Inr tokenRequestId"
    and "map_of (headers resp) (str ''x-signature'') = Some serverSignature"
    and "map_of (headers resp) (str ''x-timestamp'') = Some serverTimestamp"
    and "serverSignature \<noteq> []" and "serverTimestamp \<noteq> []" and "truthy tokenRequestId"
    and "ToString P tokenRequestId = Inr reqid"
  shows "reply (generate_token P cfg cardPan now randomBytes) =
           (if toUpperCase P serverSignature =
                 spec_expected_signature P (SECRET_KEY cfg) serverTimestamp reqid
                   (trim (latin1 (data resp)))
            then \<lparr>res_status = 200, res_json = JObject
                   [(str ''success'', JBool True),
                    (str ''signatureVerified'', JBool True),
                    (str ''token'', parsedData)]\<rparr>
            else \<lparr>res_status = 200, res_json = JObject
                   [(str ''success'', JBool False),
                    (str ''error'', JString (str ''Response signature verification failed'')),
                    (str ''signatureVerified'', JBool False),
                    (str ''receivedSignature'', JString serverSignature),
                    (str ''expectedSignature'', JString (spec_expected_signature P
                       (SECRET_KEY cfg) serverTimestamp reqid (trim (latin1 (data resp))))),
                    (str ''serverTimestamp'', JString serverTimestamp),
                    (str ''tokenRequestId'', tokenRequestId),
                    (str ''responseData'', parsedData)]\<rparr>)
       \<and> (\<exists>pre post. latin1 (data resp) = pre @ trim (latin1 (data resp)) @ post
              \<and> list_all is_white_space pre \<and> list_all is_white_space post)
       \<and> (trim (latin1 (data resp)) = []
            \<or> (\<not> is_white_space (hd (trim (latin1 (data resp))))
                \<and> \<not> is_white_space (last (trim (latin1 (data resp))))))"
proof -
  let ?E = "upper_hex (hmac_sha256 P (SECRET_KEY cfg)
              (serverTimestamp @ reqid @ trim (latin1 (data resp))))"
  note v = verify_result [OF assms(10), of "SECRET_KEY cfg" serverSignature serverTimestamp
      "trim (latin1 (data resp))"]
  have r: "reply (generate_token P cfg cardPan now randomBytes) =
           (if toUpperCase P serverSignature = ?E
            then \<lparr>res_status = 200, res_json = JObject
                   [(str ''success'', JBool True),
                    (str ''signatureVerified'', JBool True),
                    (str ''token'', parsedData)]\<rparr>
            else \<lparr>res_status = 200, res_json = JObject
                   [(str ''success'', JBool False),
                    (str ''error'', JString (str ''Response signature verification failed'')),
                    (str ''signatureVerified'', JBool False),
                    (str ''receivedSignature'', JString serverSignature),
                    (str ''expectedSignature'', JString ?E),
                    (str ''serverTimestamp'', JString serverTimestamp),
                    (str ''tokenRequestId'', tokenRequestId),
                    (str ''responseData'', parsedData)]\<rparr>)"
  proof (cases "toUpperCase P serverSignature = ?E")
    case True
    with v have "snd (verifyResponseSignature P (SECRET_KEY cfg) serverSignature
        serverTimestamp tokenRequestId (trim (latin1 (data resp)))) = Inr True"
      by simp
    from resolved_reply_snd [OF assms(1-3) check_response_verified [OF assms(4-9) this]] True
    show ?thesis by simp
  next
    case False
    with v have "snd (verifyResponseSignature P (SECRET_KEY cfg) serverSignature
        serverTimestamp tokenRequestId (trim (latin1 (data resp)))) = Inr False"
      by auto
    from resolved_reply_snd [OF assms(1-3) check_response_failed [OF assms(4-10) this]] False
    show ?thesis by simp
  qed
  show ?thesis
    using r trim_decomposition [of "latin1 (data resp)"] trim_ends [of "latin1 (data resp)"]
    by (auto simp: spec_expected_signature_def)
qed

theorem verified_body_is_trimmed_wire_payload_witness:
  "latin1 (data signed_response) = sample_body @ [10]
   \<and> trim (latin1 (data signed_response)) = sample_body
   \<and> toUpperCase (stub_platform signed_response) (str ''DD20'') =
       spec_expected_signature (stub_platform signed_response) (SECRET_KEY sample_config)
         (str ''20251103170005'') (str ''7'') sample_body
   \<and> reply (generate_token (stub_platform signed_response) sample_config sample_pan
        sample_now sample_random) =
      \<lparr>res_status = 200, res_json = JObject
         [(str ''success'', JBool True),
          (str ''signatureVerified'', JBool True),
          (str ''token'', sample_payload)]\<rparr>"
proof -
  have p: "JSON_parse (stub_platform signed_response) (latin1 (data signed_response))
      = Inr sample_payload"
    by (simp add: sample_bodies sample_parses)
  have t: "truthy (JNumber 7)"
    by simp
  have u: "toUpperCase (stub_platform signed_response) (str ''DD20'') = str ''DD20''"
    by (simp add: toUpperCase_def upper_point_def surrogate_pair_def str_def)
  from verified_body_is_trimmed_wire_payload [OF sample_sent stub_answers p
      sample_request_ids(1) sample_headers(1) sample_headers(2) sample_nonempty(1)
      sample_nonempty(5) t sample_request_ids(3)]
  show ?thesis
    by (simp add: sample_bodies sample_trims sample_expected spec_expected_signature_def u)
qed

text \<open>
  C2, as the specification has it, fails: only trailing white space should be removed and
  what comes first should be kept. On a body that starts with a space, signed by the
  service over the body with only the final newline removed, \<open>trim\<close> removes the leading
  space as well, so the handler computes the expected signature over another message and
  replies that the verification failed.
\<close>

theorem leading_white_space_is_trimmed:
  "latin1 (data indented_response) = 32 # sample_body @ [10]
   \<and> strip_trailing (latin1 (data indented_response)) = 32 # sample_body
   \<and> trim (latin1 (data indented_response)) = sample_body
   \<and> trim (latin1 (data indented_response)) \<noteq> strip_trailing (latin1 (data indented_response))
   \<and> map_of (headers indented_response) (str ''x-signature'') =
       Some (upper_hex (hmac_sha256 (stub_platform indented_response)
         (SECRET_KEY sample_config)
         (str ''20251103170005'' @ str ''7'' @
            strip_trailing (latin1 (data indented_response)))))
   \<and> reply (generate_token (stub_platform indented_response) sample_config sample_pan
        sample_now sample_random) =
      \<lparr>res_status = 200, res_json = JObject
         [(str ''success'', JBool False),
          (str ''error'', JString (str ''Response signature verification failed'')),
          (str ''signatureVerified'', JBool False),
          (str ''receivedSignature'', JString (str ''FD21'')),
          (str ''expectedSignature'', JString (str ''DD20'')),
          (str ''serverTimestamp'', JString (str ''20251103170005'')),
          (str ''tokenRequestId'', JNumber 7),
          (str ''responseData'', sample_payload)]\<rparr>"
proof -
  have p: "JSON_parse (stub_platform indented_response) (latin1 (data indented_response))
      = Inr sample_payload"
    by (simp add: sample_bodies sample_parses)
  have v: "snd (verifyResponseSignature (stub_platform indented_response)
          (SECRET_KEY sample_config) (str ''FD21'') (str ''20251103170005'') (JNumber 7)
          (trim (latin1 (data indented_response)))) = Inr False"
    by (simp add: sample_bodies sample_trims sample_verifications)
  have t: "truthy (JNumber 7)"
    by simp
  have h: "map_of (headers indented_response) (str ''x-signature'') =
       Some (upper_hex (hmac_sha256 (stub_platform indented_response)
         (SECRET_KEY sample_config)
         (str ''20251103170005'' @ str ''7'' @
            strip_trailing (latin1 (data indented_response)))))"
    unfolding sample_bodies sample_trims
    by (simp add: indented_response_def sample_trims stub_response_def stub_platform_def
        sample_config_def str_def)
  have r: "reply (generate_token (stub_platform indented_response) sample_config sample_pan
        sample_now sample_random) =
      \<lparr>res_status = 200, res_json = JObject
         [(str ''success'', JBool False),
          (str ''error'', JString (str ''Response signature verification failed'')),
          (str ''signatureVerified'', JBool False),
          (str ''receivedSignature'', JString (str ''FD21'')),
          (str ''expectedSignature'', JString (upper_hex (hmac_sha256
             (stub_platform indented_response) (SECRET_KEY sample_config)
             (str ''20251103170005'' @ str ''7'' @ trim (latin1 (data indented_response)))))),
          (str ''serverTimestamp'', JString (str ''20251103170005'')),
          (str ''tokenRequestId'', JNumber 7),
          (str ''responseData'', sample_payload)]\<rparr>"
    by (rule resolved_reply_snd [OF sample_sent stub_answers p
          check_response_failed [OF sample_request_ids(1) indented_headers(1)
            indented_headers(2) sample_nonempty(3) sample_nonempty(5) t
            sample_request_ids(3) v]])
  show ?thesis
    using h r by (simp add: sample_bodies sample_trims sample_expected)
qed

section \<open>The timestamp\<close>

lemma digits_one: "n < 10 \<Longrightarrow> digits n = [48 + n]"
  by (simp add: digits.simps)

lemma digits_two: "10 \<le> n \<Longrightarrow> n < 100 \<Longrightarrow> digits n = [48 + n div 10, 48 + n mod 10]"
  by (subst digits.simps) (simp add: digits_one)

lemma digits_three:
  "100 \<le> n \<Longrightarrow> n < 1000 \<Longrightarrow> digits n = [48 + n div 100, 48 + n div 10 mod 10, 48 + n mod 10]"
  by (subst digits.simps) (simp add: digits_two div_mult2_eq [symmetric])

lemma digits_four:
  "1000 \<le> n \<Longrightarrow> n < 10000 \<Longrightarrow>
   digits n = [48 + n div 1000, 48 + n div 100 mod 10, 48 + n div 10 mod 10, 48 + n mod 10]"
  by (subst digits.simps) (simp add: digits_three div_mult2_eq [symmetric])

lemma fixed_width_two: "fixed_width 2 n = [48 + n div 10 mod 10, 48 + n mod 10]"
  by (simp add: numeral_2_eq_2)

lemma fixed_width_four:
  "fixed_width 4 n =
     [48 + n div 1000 mod 10, 48 + n div 100 mod 10, 48 + n div 10 mod 10, 48 + n mod 10]"
proof -
  have e: "(4::nat) = Suc (Suc (Suc (Suc 0)))"
    by simp
  show ?thesis
    unfolding e by (simp add: div_mult2_eq [symmetric])
qed

lemma padStart_two: "n < 100 \<Longrightarrow> padStart 2 48 (digits n) = fixed_width 2 n"
  by (cases "n < 10") (simp_all add: padStart_def digits_one digits_two fixed_width_two)

lemma digits_year: "1000 \<le> n \<Longrightarrow> n < 10000 \<Longrightarrow> digits n = fixed_width 4 n"
  by (simp add: digits_four fixed_width_four)

lemma length_fixed_width: "length (fixed_width w n) = w"
  by (induction w arbitrary: n) simp_all

lemma fixed_width_digits: "list_all is_digit (fixed_width w n)"
  by (induction w arbitrary: n) (simp_all add: is_digit_def)

lemma two_digit_field:
  "0 \<le> x \<Longrightarrow> x \<le> 99 \<Longrightarrow>
   padStart 2 48 (Number_toString P (of_int x)) = fixed_width 2 (nat x)"
  by (simp add: Number_toString_def is_safe_integer_def padStart_two)

text \<open>
  C7, as the code has it. For every instant whose UTC year has four digits (1000 to
  9999), the timestamp is made of the UTC fields of the instant alone (the local-time
  getters are not read): the year in four digits, then month, day, hours, minutes and
  seconds in two digits each, zero-padded, with no separator, 14 decimal digits in all.
  The year itself is written as it is, without padding.
\<close>

theorem timestamp_is_fourteen_utc_digits:
  assumes "1000 \<le> getUTCFullYear now" and "getUTCFullYear now \<le> 9999"
    and "utc_fields_in_range now"
  shows "generateTimestamp P now =
           fixed_width 4 (nat (getUTCFullYear now)) @
           fixed_width 2 (nat (getUTCMonth now + 1)) @
           fixed_width 2 (nat (getUTCDate now)) @
           fixed_width 2 (nat (getUTCHours now)) @
           fixed_width 2 (nat (getUTCMinutes now)) @
           fixed_width 2 (nat (getUTCSeconds now))
       \<and> length (generateTimestamp P now) = 14
       \<and> list_all is_digit (generateTimestamp P now)"
proof -
  have y: "Number_toString P (of_int (getUTCFullYear now)) =
      fixed_width 4 (nat (getUTCFullYear now))"
    using assms(1,2) by (simp add: Number_toString_def is_safe_integer_def digits_year)
  have f:
    "padStart 2 48 (Number_toString P (of_int (getUTCMonth now + 1))) =
       fixed_width 2 (nat (getUTCMonth now + 1))"
    "padStart 2 48 (Number_toString P (of_int (getUTCDate now))) =
       fixed_width 2 (nat (getUTCDate now))"
    "padStart 2 48 (Number_toString P (of_int (getUTCHours now))) =
       fixed_width 2 (nat (getUTCHours now))"
    "padStart 2 48 (Number_toString P (of_int (getUTCMinutes now))) =
       fixed_width 2 (nat (getUTCMinutes now))"
    "padStart 2 48 (Number_toString P (of_int (getUTCSeconds now))) =
       fixed_width 2 (nat (getUTCSeconds now))"
    by (rule two_digit_field; use assms(3) in \<open>simp add: utc_fields_in_range_def\<close>)+
  show ?thesis
    unfolding generateTimestamp_def Let_def y f
    by (simp add: length_fixed_width fixed_width_digits)
qed

theorem timestamp_is_fourteen_utc_digits_witness:
  "1000 \<le> getUTCFullYear sample_now \<and> getUTCFullYear sample_now \<le> 9999
   \<and> utc_fields_in_range sample_now
   \<and> getHours sample_now = 9 \<and> getUTCHours sample_now = 17
   \<and> generateTimestamp (stub_platform signed_response) sample_now = str ''20251103170000''
   \<and> length (generateTimestamp (stub_platform signed_response) sample_now) = 14"
proof -
  have a: "1000 \<le> getUTCFullYear sample_now" "getUTCFullYear sample_now \<le> 9999"
    by (simp_all add: sample_now_def)
  have r: "utc_fields_in_range sample_now"
    by (simp add: utc_fields_in_range_def sample_now_def)
  from timestamp_is_fourteen_utc_digits [OF a r, of "stub_platform signed_response"]
  show ?thesis using a r
    by (simp add: sample_now_def fixed_width_two fixed_width_four str_def)
qed

text \<open>
  C7, as the specification has it, fails for an instant in the year 10000: the year takes
  five characters and the timestamp fifteen.
\<close>

theorem timestamp_of_year_10000:
  "generateTimestamp (stub_platform signed_response) (sample_now\<lparr>getUTCFullYear := 10000\<rparr>)
     = str ''100001103170000''
   \<and> length (generateTimestamp (stub_platform signed_response)
        (sample_now\<lparr>getUTCFullYear := 10000\<rparr>)) = 15"
  by (simp add: sample_now_def generateTimestamp_def Number_toString_def is_safe_integer_def
      digits.simps
      padStart_def str_def Let_def)

section \<open>The secret key in the output\<close>

text \<open>The conversions of the language do not read the keyed hash.\<close>

lemma Number_toString_hmac:
  "Number_toString (P\<lparr>hmac_sha256 := h\<rparr>) x = Number_toString P x"
  by (simp add: Number_toString_def)

lemma ToString_other_platform:
  "Number_text Q = Number_text P \<Longrightarrow> ToString Q v = ToString P v"
  "Number_text Q = Number_text P \<Longrightarrow> join Q vs = join P vs"
  by (induction Q v and Q vs rule: ToString_join.induct)
    (auto simp: Number_toString_def split: sum.splits)

lemma ToString_hmac: "ToString (P\<lparr>hmac_sha256 := h\<rparr>) v = ToString P v"
  by (rule ToString_other_platform) simp

lemma toUpperCase_hmac: "toUpperCase (P\<lparr>hmac_sha256 := h\<rparr>) s = toUpperCase P s"
proof -
  have "upper_point (P\<lparr>hmac_sha256 := h\<rparr>) = upper_point P"
    by (rule ext) (simp add: upper_point_def)
  then show ?thesis
    by (simp add: toUpperCase_def)
qed

lemma generateTimestamp_hmac:
  "generateTimestamp (P\<lparr>hmac_sha256 := h\<rparr>) now = generateTimestamp P now"
  by (simp add: generateTimestamp_def Number_toString_hmac)

text \<open>
  C9, as the code has it. Whatever the handler logs, sends and replies depends on the
  secret key only through the keyed hash computed with it: with any other secret key in
  the configuration and the same keyed hash, the outcome is the same. The reply of
  \<^verbatim>\<open>GET /health\<close> does not depend on the secret key. The banner logged at start depends
  on the secret key only through its first three characters and its length: it prints
  those three characters and one asterisk for each character after them.
\<close>

theorem secret_key_reaches_output_only_through_signatures:
  "generate_token P cfg cardPan now randomBytes =
     generate_token (P\<lparr>hmac_sha256 := \<lambda>k. hmac_sha256 P (SECRET_KEY cfg)\<rparr>)
       (cfg\<lparr>SECRET_KEY := other\<rparr>) cardPan now randomBytes
   \<and> health (cfg\<lparr>SECRET_KEY := other\<rparr>) now = health cfg now
   \<and> listen_banner port cfg =
       listen_banner port (cfg\<lparr>SECRET_KEY :=
         take 3 (SECRET_KEY cfg) @ replicate (length (SECRET_KEY cfg) - 3) 42\<rparr>)"
proof -
  have g: "\<And>m. generateSignature (P\<lparr>hmac_sha256 := \<lambda>k. hmac_sha256 P (SECRET_KEY cfg)\<rparr>)
      other m = generateSignature P (SECRET_KEY cfg) m"
    by (simp add: generateSignature_def)
  have v: "\<And>sig ts rid body.
      verifyResponseSignature (P\<lparr>hmac_sha256 := \<lambda>k. hmac_sha256 P (SECRET_KEY cfg)\<rparr>)
        other sig ts rid body =
      verifyResponseSignature P (SECRET_KEY cfg) sig ts rid body"
    by (simp add: verifyResponseSignature_def g ToString_hmac toUpperCase_hmac Let_def
        split: sum.splits)
  have c: "\<And>resp raw pd.
      check_response (P\<lparr>hmac_sha256 := \<lambda>k. hmac_sha256 P (SECRET_KEY cfg)\<rparr>)
        (cfg\<lparr>SECRET_KEY := other\<rparr>) resp raw pd =
      check_response P cfg resp raw pd"
    by (simp add: check_response_def g v ToString_hmac toUpperCase_hmac Let_def
        cong: sum.case_cong option.case_cong prod.case_cong if_cong)
  have t: "try_block (P\<lparr>hmac_sha256 := \<lambda>k. hmac_sha256 P (SECRET_KEY cfg)\<rparr>)
        (cfg\<lparr>SECRET_KEY := other\<rparr>) cardPan now randomBytes =
      try_block P cfg cardPan now randomBytes"
    by (simp add: try_block_def g c generateTimestamp_hmac Let_def
        cong: sum.case_cong option.case_cong prod.case_cong jsval.case_cong
          axios_result.case_cong if_cong)
  have b: "listen_banner port cfg =
       listen_banner port (cfg\<lparr>SECRET_KEY :=
         take 3 (SECRET_KEY cfg) @ replicate (length (SECRET_KEY cfg) - 3) 42\<rparr>)"
    by (simp add: listen_banner_def repeat_def min_def)
  show ?thesis
    using b by (simp add: generate_token_def t health_def)
qed

text \<open>
  C9, as the specification has it, fails: no part of the secret key should appear in the
  log. With the secret key \<^verbatim>\<open>Password123\<close> the banner logs its first three characters,
  \<^verbatim>\<open>Pas\<close>, and with another first character it logs that one.
\<close>

theorem banner_prints_key_prefix:
  "take 3 (SECRET_KEY sample_config) = str ''Pas''
   \<and> listen_banner (str ''3000'') sample_config ! 10 =
       ConsoleLog [sv (str ''  Secret Key:    Pas********'')]
   \<and> listen_banner (str ''3000'') (sample_config\<lparr>SECRET_KEY := str ''Qassword123''\<rparr>) ! 10 =
       ConsoleLog [sv (str ''  Secret Key:    Qas********'')]"
  by (simp add: sample_config_def listen_banner_def repeat_def sv_def str_def)

end
